theory Spec2Isabelle
  imports Main "HOL-Library.AList"
begin

section \<open>Python values, errors and indexing\<close>

text \<open>
  Exceptions of the Python source are values of type \<open>error\<close>; a function that can raise
  returns \<open>error + 'a\<close> with \<open>Inl\<close> for the exception. Python integers are \<open>int\<close>.
\<close>

datatype error =
    IndexError
  | KeyError
  | ZeroDivisionError
  | ValueError
  | TypeError
  | AttributeError
  | NoOptionError
  | IOError
  | UnicodeDecodeError
  | ParsingError
  | UnboundLocalError
  | BadWalkabout string

text \<open>
  \<open>xs[i]\<close> of Python: a negative index counts from the end, anything outside
  \<open>-len(xs) .. len(xs) - 1\<close> raises IndexError.
\<close>

definition py_getitem :: "'a list \<Rightarrow> int \<Rightarrow> error + 'a" where
  "py_getitem xs i =
     (let n = int (length xs) in
      if 0 \<le> i \<and> i < n then Inr (xs ! nat i)
      else if - n \<le> i \<and> i < 0 then Inr (xs ! nat (n + i))
      else Inl IndexError)"

section \<open>Surfaces\<close>

text \<open>
  A pygame surface, as far as the sprite code uses it: its pixel size and its pixels
  (RGBA tuples), stored row by row. \<open>get_at\<close> raises IndexError outside the surface,
  \<open>set_at\<close> outside the surface does nothing.
\<close>

type_synonym color = "nat \<times> nat \<times> nat \<times> nat"

record Surface =
  sf_width :: nat
  sf_height :: nat
  sf_pixels :: "color list"

definition get_size :: "Surface \<Rightarrow> nat \<times> nat" where
  "get_size s = (sf_width s, sf_height s)"

definition get_at :: "Surface \<Rightarrow> nat \<times> nat \<Rightarrow> error + color" where
  "get_at s c =
     (case c of (cx, cy) \<Rightarrow>
        if cx < sf_width s \<and> cy < sf_height s \<and> cy * sf_width s + cx < length (sf_pixels s)
        then Inr (sf_pixels s ! (cy * sf_width s + cx))
        else Inl IndexError)"

definition set_at :: "Surface \<Rightarrow> nat \<times> nat \<Rightarrow> color \<Rightarrow> Surface" where
  "set_at s c col =
     (case c of (cx, cy) \<Rightarrow>
        if cx < sf_width s \<and> cy < sf_height s
        then s\<lparr>sf_pixels := (sf_pixels s)[cy * sf_width s + cx := col]\<rparr>
        else s)"

section \<open>Anchors and animation frames\<close>

datatype Anchor = Anchor int int

fun anchor_add :: "Anchor \<Rightarrow> Anchor \<Rightarrow> Anchor" where
  "anchor_add (Anchor ax ay) (Anchor bx by) = Anchor (ax + bx) (ay + by)"

fun anchor_sub :: "Anchor \<Rightarrow> Anchor \<Rightarrow> Anchor" where
  "anchor_sub (Anchor ax ay) (Anchor bx by) = Anchor (ax - bx) (ay - by)"

fun as_tuple :: "Anchor \<Rightarrow> int \<times> int" where
  "as_tuple (Anchor ax ay) = (ax, ay)"

text \<open>
  \<open>LabeledSurfaceAnchors\<close> holds a dictionary from anchor label to anchor; it is kept as
  an association list in insertion order.
\<close>

type_synonym LabeledSurfaceAnchors = "(string \<times> Anchor) list"

record AnimatedSpriteFrame =
  surface :: Surface
  duration :: int
  start_time :: int
  end_time :: int
  anchors :: "LabeledSurfaceAnchors option"

text \<open>\<open>AnimatedSpriteFrame.__init__\<close>: the end time is computed from start and duration.\<close>

definition AnimatedSpriteFrame_init ::
  "Surface \<Rightarrow> int \<Rightarrow> int \<Rightarrow> LabeledSurfaceAnchors option \<Rightarrow> AnimatedSpriteFrame" where
  "AnimatedSpriteFrame_init sf st d an =
     \<lparr>surface = sf, duration = d, start_time = st, end_time = st + d, anchors = an\<rparr>"

section \<open>AnimatedSprite\<close>

record AnimatedSprite =
  frames :: "AnimatedSpriteFrame list"
  total_duration :: int
  active_frame_index :: int
  animation_position :: int
  image_attr :: Surface
  rect :: "(int \<times> int) \<times> (nat \<times> nat)"

text \<open>The static method \<open>total_duration(frames)\<close>: the sum of the frames' durations.\<close>

definition total_duration_frames :: "AnimatedSpriteFrame list \<Rightarrow> int" where
  "total_duration_frames fs = sum_list (map duration fs)"

text \<open>
  \<open>AnimatedSprite.__init__\<close>. The only statement that can raise is \<open>self.frames[0]\<close>,
  on an empty frame list; no check is made on the total duration.
\<close>

definition AnimatedSprite_init :: "AnimatedSpriteFrame list \<Rightarrow> error + AnimatedSprite" where
  "AnimatedSprite_init fs =
     (case py_getitem fs 0 of
        Inl e \<Rightarrow> Inl e
      | Inr f \<Rightarrow>
          Inr \<lparr>frames = fs,
               total_duration = total_duration_frames fs,
               active_frame_index = 0,
               animation_position = 0,
               image_attr = surface f,
               rect = ((0, 0), get_size (surface f))\<rparr>)"

text \<open>\<open>largest_frame_size\<close>: the loop keeps the first frame of strictly largest area.\<close>

fun largest_frame_size_loop :: "nat \<times> nat \<Rightarrow> AnimatedSpriteFrame list \<Rightarrow> nat \<times> nat" where
  "largest_frame_size_loop largest [] = largest"
| "largest_frame_size_loop largest (f # fs) =
     (let largest_area = fst largest * snd largest;
          frame_size = get_size (surface f);
          frame_area = fst frame_size * snd frame_size
      in largest_frame_size_loop (if frame_area > largest_area then frame_size else largest) fs)"

definition largest_frame_size :: "AnimatedSprite \<Rightarrow> nat \<times> nat" where
  "largest_frame_size s = largest_frame_size_loop (0, 0) (frames s)"

text \<open>\<open>from_surface_duration_list\<close>: frames laid end to end from time 0.\<close>

fun frames_from_list :: "int \<Rightarrow> (Surface \<times> int) list \<Rightarrow> AnimatedSpriteFrame list" where
  "frames_from_list running_time [] = []"
| "frames_from_list running_time ((sf, d) # rest) =
     AnimatedSpriteFrame_init sf running_time d None # frames_from_list (running_time + d) rest"

definition from_surface_duration_list :: "(Surface \<times> int) list \<Rightarrow> error + AnimatedSprite" where
  "from_surface_duration_list surface_duration_list =
     AnimatedSprite_init (frames_from_list 0 surface_duration_list)"

definition active_frame :: "AnimatedSprite \<Rightarrow> error + AnimatedSpriteFrame" where
  "active_frame s = py_getitem (frames s) (active_frame_index s)"

text \<open>
  The frame-advance loop of \<open>update\<close>:
  \<open>while position > frames[index].end_time: index += 1\<close>.
  Each round reads \<open>frames[index]\<close>, so running off the end raises IndexError.
\<close>

function advance :: "AnimatedSpriteFrame list \<Rightarrow> int \<Rightarrow> int \<Rightarrow> error + int" where
  "advance fs pos idx =
     (case py_getitem fs idx of
        Inl e \<Rightarrow> Inl e
      | Inr f \<Rightarrow> if pos > end_time f then advance fs pos (idx + 1) else Inr idx)"
  by pat_completeness auto
termination
  by (relation "measure (\<lambda>(fs, pos, idx). nat (int (length fs) - idx))")
     (auto simp: py_getitem_def Let_def split: if_splits)

declare advance.simps [simp del]

text \<open>
  \<open>AnimatedSprite.update\<close>, with the clock's \<open>get_time()\<close> as the argument \<open>delta\<close>.
  The wrap divides by \<open>total_duration\<close> (ZeroDivisionError when it is 0); the image shown
  is \<open>frames[active_frame_index - 1]\<close>, so at index 0 Python's negative index selects the
  last frame.
\<close>

definition wrap_position :: "AnimatedSprite \<Rightarrow> int \<Rightarrow> error + int \<times> int" where
  "wrap_position s pos =
     (if pos \<ge> total_duration s then
        (if total_duration s = 0 then Inl ZeroDivisionError
         else Inr (pos mod total_duration s, 0))
      else Inr (pos, active_frame_index s))"

definition AnimatedSprite_update :: "AnimatedSprite \<Rightarrow> int \<Rightarrow> error + AnimatedSprite" where
  "AnimatedSprite_update s delta =
     (case wrap_position s (animation_position s + delta) of
        Inl e \<Rightarrow> Inl e
      | Inr (pos, idx0) \<Rightarrow>
          (case advance (frames s) pos idx0 of
             Inl e \<Rightarrow> Inl e
           | Inr idx \<Rightarrow>
               (case py_getitem (frames s) (idx - 1) of
                  Inl e \<Rightarrow> Inl e
                | Inr f \<Rightarrow>
                    Inr (s\<lparr>animation_position := pos,
                           active_frame_index := idx,
                           image_attr := surface f,
                           rect := ((0, 0), get_size (surface f))\<rparr>))))"

text \<open>Driving a sprite by a sequence of ticks; the first failing tick ends the run.\<close>

fun run_ticks :: "AnimatedSprite \<Rightarrow> int list \<Rightarrow> error + AnimatedSprite" where
  "run_ticks s [] = Inr s"
| "run_ticks s (d # ds) =
     (case AnimatedSprite_update s d of Inl e \<Rightarrow> Inl e | Inr s' \<Rightarrow> run_ticks s' ds)"

text \<open>
  The timeline invariant of the data model: the first frame starts at the given time,
  every frame ends at start plus duration, and the next frame starts where it ends.
\<close>

fun contiguous_from :: "int \<Rightarrow> AnimatedSpriteFrame list \<Rightarrow> bool" where
  "contiguous_from t [] = True"
| "contiguous_from t (f # fs) =
     (start_time f = t \<and> end_time f = start_time f + duration f \<and> contiguous_from (end_time f) fs)"

definition valid_sprite :: "AnimatedSprite \<Rightarrow> bool" where
  "valid_sprite s =
     (frames s \<noteq> [] \<and> contiguous_from 0 (frames s) \<and>
      total_duration s = total_duration_frames (frames s) \<and> 0 < total_duration s)"

definition cursor_inv :: "AnimatedSprite \<Rightarrow> bool" where
  "cursor_inv s =
     (0 \<le> active_frame_index s \<and> active_frame_index s < int (length (frames s)) \<and>
      0 \<le> animation_position s \<and> animation_position s < total_duration s)"

section \<open>Palette cycling\<close>

text \<open>
  \<open>itertools.product(range(0, width), range(0, height))\<close>: the coordinates with the
  column as the outer loop.
\<close>

definition coordinates :: "nat \<Rightarrow> nat \<Rightarrow> (nat \<times> nat) list" where
  "coordinates w h = List.product [0..<w] [0..<h]"

text \<open>
  The first loop of \<open>palette_cycle\<close>: the colors of the surface in order of first
  appearance, with the set of colors seen so far.
\<close>

fun discover_colors ::
  "Surface \<Rightarrow> (nat \<times> nat) list \<Rightarrow> color list \<Rightarrow> color set \<Rightarrow> error + color list" where
  "discover_colors s [] ordered_color_list seen_colors = Inr ordered_color_list"
| "discover_colors s (c # cs) ordered_color_list seen_colors =
     (case get_at s c of
        Inl e \<Rightarrow> Inl e
      | Inr col \<Rightarrow>
          if col \<in> seen_colors then discover_colors s cs ordered_color_list seen_colors
          else discover_colors s cs (ordered_color_list @ [col]) (insert col seen_colors))"

text \<open>\<open>deque.rotate(1)\<close>: the last element moves to the front.\<close>

definition rotate_right :: "'a list \<Rightarrow> 'a list" where
  "rotate_right xs = (if xs = [] then [] else last xs # butlast xs)"

text \<open>\<open>dict(zip(old, new))\<close>: of two pairs with the same key the later one wins.\<close>

definition color_translations :: "color list \<Rightarrow> color list \<Rightarrow> color \<rightharpoonup> color" where
  "color_translations old_color_list new_color_list = map_of (rev (zip old_color_list new_color_list))"

text \<open>
  The inner loop: every pixel is read, translated (KeyError for a color the dictionary
  lacks) and written back to the same surface.
\<close>

fun replace_colors ::
  "(color \<rightharpoonup> color) \<Rightarrow> Surface \<Rightarrow> (nat \<times> nat) list \<Rightarrow> error + Surface" where
  "replace_colors tr s [] = Inr s"
| "replace_colors tr s (c # cs) =
     (case get_at s c of
        Inl e \<Rightarrow> Inl e
      | Inr col \<Rightarrow>
          (case tr col of
             None \<Rightarrow> Inl KeyError
           | Some new_color \<Rightarrow> replace_colors tr (set_at s c new_color) cs))"

text \<open>
  The outer loop, one round per palette color: rotate the color list, recolor the
  surface of the previous round, and append a copy with 250 ms.
\<close>

fun rotation_frames ::
  "nat \<Rightarrow> (nat \<times> nat) list \<Rightarrow> color list \<Rightarrow> Surface \<Rightarrow> error + (Surface \<times> int) list" where
  "rotation_frames 0 cs old_color_list new_surface = Inr []"
| "rotation_frames (Suc n) cs old_color_list new_surface =
     (let new_color_list = rotate_right old_color_list in
      case replace_colors (color_translations old_color_list new_color_list) new_surface cs of
        Inl e \<Rightarrow> Inl e
      | Inr frame \<Rightarrow>
          (case rotation_frames n cs new_color_list frame of
             Inl e \<Rightarrow> Inl e
           | Inr rest \<Rightarrow> Inr ((frame, 250) # rest)))"

definition palette_cycle :: "Surface \<Rightarrow> error + AnimatedSprite" where
  "palette_cycle s =
     (let cs = coordinates (fst (get_size s)) (snd (get_size s)) in
      case discover_colors s cs [] {} of
        Inl e \<Rightarrow> Inl e
      | Inr ordered_color_list \<Rightarrow>
          (case rotation_frames (length ordered_color_list) cs ordered_color_list s of
             Inl e \<Rightarrow> Inl e
           | Inr frame_list \<Rightarrow> from_surface_duration_list frame_list))"

section \<open>Paths and strings of the Python library\<close>

text \<open>\<open>str.rfind(c)\<close>: the index of the last occurrence of a character, -1 when absent.\<close>

fun rfind :: "char \<Rightarrow> string \<Rightarrow> int" where
  "rfind c [] = - 1"
| "rfind c (x # xs) =
     (let r = rfind c xs in if 0 \<le> r then r + 1 else if x = c then 0 else - 1)"

text \<open>
  \<open>os.path.splitext\<close> (POSIX): the extension starts at the last dot, provided that dot
  comes after the last slash and some character between the slash and the dot is not a
  dot; the library's loop over the leading dots is the test \<open>list_ex\<close> over that slice.
\<close>

definition splitext :: "string \<Rightarrow> string \<times> string" where
  "splitext p =
     (let sepIndex = rfind CHR ''/'' p; dotIndex = rfind CHR ''.'' p in
      if dotIndex > sepIndex \<and>
         list_ex (\<lambda>c. c \<noteq> CHR ''.'') (drop (nat (sepIndex + 1)) (take (nat dotIndex) p))
      then (take (nat dotIndex) p, drop (nat dotIndex) p)
      else (p, []))"

text \<open>\<open>os.path.split(p)[1]\<close>: what follows the last slash.\<close>

definition path_tail :: "string \<Rightarrow> string" where
  "path_tail p = drop (nat (rfind CHR ''/'' p + 1)) p"

text \<open>\<open>s.split(c)\<close> and \<open>s.split(c, 1)\<close>.\<close>

fun split_on :: "char \<Rightarrow> string \<Rightarrow> string list" where
  "split_on c [] = [[]]"
| "split_on c (x # xs) =
     (if x = c then [] # split_on c xs
      else (case split_on c xs of [] \<Rightarrow> [[x]] | w # ws \<Rightarrow> (x # w) # ws))"

definition split_once :: "char \<Rightarrow> string \<Rightarrow> string list" where
  "split_once c s =
     (if c \<in> set s then [takeWhile (\<lambda>x. x \<noteq> c) s, tl (dropWhile (\<lambda>x. x \<noteq> c) s)] else [s])"

text \<open>\<open>str(n)\<close> for a frame index: its decimal digits.\<close>

definition digit_char :: "nat \<Rightarrow> char" where
  "digit_char n = ''0123456789'' ! n"

function py_str :: "nat \<Rightarrow> string" where
  "py_str n = (if n < 10 then [digit_char n] else py_str (n div 10) @ [digit_char (n mod 10)])"
  by pat_completeness auto
termination
  by (relation "measure (\<lambda>n. n)") auto

declare py_str.simps [simp del]

section \<open>Assets and the libraries outside the repository\<close>

text \<open>
  A raw payload is a list of bytes. A configuration document is the list of its
  sections, each with its options. The value stored under a file name is the raw payload
  or what a handler made of it.
\<close>

type_synonym bytes = string

type_synonym config = "(string \<times> (string \<times> string) list) list"

datatype asset =
    Raw bytes
  | ByteStream bytes
  | Text string
  | Config config
  | Sprite AnimatedSprite

text \<open>
  One frame of an opened PIL image: its surface (after \<open>pil_image_to_pygame_surface\<close>)
  and the entry \<open>info['duration']\<close>, which may be missing.
\<close>

record pil_frame =
  pf_surface :: Surface
  pf_duration :: "int option"

text \<open>
  The library functions the code calls are parameters of the model:
  \<open>bytes.decode('utf-8')\<close>, \<open>ConfigParser.readfp\<close> on the decoded text,
  \<open>Image.open\<close> with the frames that \<open>seek\<close> walks through until EOFError, \<open>int(s)\<close>,
  and the builtin \<open>open(path).read()\<close>, which takes the bytes stored in a file to the value
  the program receives. The source opens the file without a mode, that is in text mode.
\<close>

record external =
  decode_utf8 :: "bytes \<Rightarrow> error + string"
  read_config :: "string \<Rightarrow> error + config"
  image_open :: "bytes \<Rightarrow> error + pil_frame list"
  py_int :: "string \<Rightarrow> error + int"
  open_read :: "bytes \<Rightarrow> error + asset"

text \<open>
  The two interpreters the source supports differ on a text-mode read. Python 2 returns
  the byte string of the file. Python 3 decodes the bytes with the encoding of the
  locale and returns a \<open>str\<close>, the type of a decoded text, or raises UnicodeDecodeError.
\<close>

definition python2_open_read :: "bytes \<Rightarrow> error + asset" where
  "python2_open_read stored = Inr (Raw stored)"

definition python3_open_read :: "(bytes \<Rightarrow> error + string) \<Rightarrow> bytes \<Rightarrow> error + asset" where
  "python3_open_read locale_decode stored =
     (case locale_decode stored of Inl e \<Rightarrow> Inl e | Inr t \<Rightarrow> Inr (Text t))"

text \<open>The dictionary \<open>files\<close>, in insertion order; \<open>files[k]\<close> raises KeyError.\<close>

type_synonym files = "(string \<times> asset) list"

definition dict_get :: "('k \<times> 'v) list \<Rightarrow> 'k \<Rightarrow> error + 'v" where
  "dict_get d k = (case map_of d k of None \<Rightarrow> Inl KeyError | Some v \<Rightarrow> Inr v)"

section \<open>Frames from an animated image\<close>

text \<open>\<open>anchors_config.get(section, option)\<close>.\<close>

definition config_get :: "config \<Rightarrow> string \<Rightarrow> string \<Rightarrow> error + string" where
  "config_get cfg section option =
     (case map_of cfg section of
        None \<Rightarrow> Inl NoOptionError
      | Some options \<Rightarrow>
          (case map_of options option of None \<Rightarrow> Inl NoOptionError | Some v \<Rightarrow> Inr v))"

text \<open>
  \<open>LabeledSurfaceAnchors.__init__\<close>: for every section the entry of the frame index,
  split at the comma into exactly two integers.
\<close>

fun labeled_anchors_loop ::
  "external \<Rightarrow> config \<Rightarrow> string list \<Rightarrow> nat \<Rightarrow> LabeledSurfaceAnchors \<Rightarrow>
   error + LabeledSurfaceAnchors" where
  "labeled_anchors_loop X cfg [] frame_index acc = Inr acc"
| "labeled_anchors_loop X cfg (section # rest) frame_index acc =
     (case config_get cfg section (py_str frame_index) of
        Inl e \<Rightarrow> Inl e
      | Inr anchor_for_frame \<Rightarrow>
          (case split_on CHR '','' anchor_for_frame of
             [sx, sy] \<Rightarrow>
               (case py_int X sx of
                  Inl e \<Rightarrow> Inl e
                | Inr ax \<Rightarrow>
                    (case py_int X sy of
                       Inl e \<Rightarrow> Inl e
                     | Inr ay \<Rightarrow>
                         labeled_anchors_loop X cfg rest frame_index
                           (AList.update section (Anchor ax ay) acc)))
           | _ \<Rightarrow> Inl ValueError))"

definition LabeledSurfaceAnchors_init ::
  "external \<Rightarrow> config \<Rightarrow> nat \<Rightarrow> error + LabeledSurfaceAnchors" where
  "LabeledSurfaceAnchors_init X cfg frame_index =
     labeled_anchors_loop X cfg (map fst cfg) frame_index []"

text \<open>
  \<open>frames_from_gif\<close>: one frame per frame of the image, each starting where the
  previous one ended; the anchors are read when a configuration was given.
\<close>

fun frames_from_gif_loop ::
  "external \<Rightarrow> config option \<Rightarrow> pil_frame list \<Rightarrow> nat \<Rightarrow> int \<Rightarrow>
   error + AnimatedSpriteFrame list" where
  "frames_from_gif_loop X anchors_config [] frame_index time_position = Inr []"
| "frames_from_gif_loop X anchors_config (p # ps) frame_index time_position =
     (case pf_duration p of
        None \<Rightarrow> Inl KeyError
      | Some d \<Rightarrow>
          (case (case anchors_config of
                   None \<Rightarrow> Inr None
                 | Some cfg \<Rightarrow>
                     (case LabeledSurfaceAnchors_init X cfg frame_index of
                        Inl e \<Rightarrow> Inl e
                      | Inr a \<Rightarrow> Inr (Some a))) of
             Inl e \<Rightarrow> Inl e
           | Inr frame_anchors \<Rightarrow>
               (case frames_from_gif_loop X anchors_config ps (Suc frame_index)
                       (time_position + d) of
                  Inl e \<Rightarrow> Inl e
                | Inr rest \<Rightarrow>
                    Inr (AnimatedSpriteFrame_init (pf_surface p) time_position d frame_anchors
                         # rest))))"

definition frames_from_gif ::
  "external \<Rightarrow> bytes \<Rightarrow> config option \<Rightarrow> error + AnimatedSpriteFrame list" where
  "frames_from_gif X gif anchors_config =
     (case image_open X gif of
        Inl e \<Rightarrow> Inl e
      | Inr pil_gif \<Rightarrow> frames_from_gif_loop X anchors_config pil_gif 0 0)"

definition from_file :: "external \<Rightarrow> bytes \<Rightarrow> config option \<Rightarrow> error + AnimatedSprite" where
  "from_file X gif anchors_config =
     (case frames_from_gif X gif anchors_config of
        Inl e \<Rightarrow> Inl e
      | Inr fs \<Rightarrow> AnimatedSprite_init fs)"

section \<open>File handlers\<close>

text \<open>
  Each handler takes the whole dictionary and a file name. \<open>BytesIO\<close> of a value that is
  not bytes raises TypeError, \<open>.decode\<close> on one raises AttributeError.
\<close>

definition load_png :: "external \<Rightarrow> files \<Rightarrow> string \<Rightarrow> error + asset" where
  "load_png X fls file_name =
     (case dict_get fls file_name of
        Inl e \<Rightarrow> Inl e
      | Inr (Raw b) \<Rightarrow> Inr (ByteStream b)
      | Inr _ \<Rightarrow> Inl TypeError)"

definition load_txt :: "external \<Rightarrow> files \<Rightarrow> string \<Rightarrow> error + asset" where
  "load_txt X fls file_name =
     (case dict_get fls file_name of
        Inl e \<Rightarrow> Inl e
      | Inr (Raw b) \<Rightarrow> (case decode_utf8 X b of Inl e \<Rightarrow> Inl e | Inr t \<Rightarrow> Inr (Text t))
      | Inr _ \<Rightarrow> Inl AttributeError)"

definition load_ini_config :: "external \<Rightarrow> files \<Rightarrow> string \<Rightarrow> error + config" where
  "load_ini_config X fls file_name =
     (case dict_get fls file_name of
        Inl e \<Rightarrow> Inl e
      | Inr (Raw b) \<Rightarrow>
          (case decode_utf8 X b of Inl e \<Rightarrow> Inl e | Inr t \<Rightarrow> read_config X t)
      | Inr _ \<Rightarrow> Inl AttributeError)"

definition load_ini :: "external \<Rightarrow> files \<Rightarrow> string \<Rightarrow> error + asset" where
  "load_ini X fls file_name =
     (case load_ini_config X fls file_name of Inl e \<Rightarrow> Inl e | Inr c \<Rightarrow> Inr (Config c))"

text \<open>
  The sidecar lookup of \<open>load_gif\<close>: \<open>files[name + '.ini']\<close> is used as it is when it
  already is a configuration object (it has \<open>sections()\<close>), and is passed to \<open>load_ini\<close>
  otherwise; a KeyError anywhere in this block means no anchors.
\<close>

definition anchor_config :: "external \<Rightarrow> files \<Rightarrow> string \<Rightarrow> error + config option" where
  "anchor_config X fls anchor_ini_name =
     (case dict_get fls anchor_ini_name of
        Inl e \<Rightarrow> Inr None
      | Inr (Config c) \<Rightarrow> Inr (Some c)
      | Inr _ \<Rightarrow>
          (case load_ini_config X fls anchor_ini_name of
             Inl e \<Rightarrow> if e = KeyError then Inr None else Inl e
           | Inr c \<Rightarrow> Inr (Some c)))"

definition load_gif :: "external \<Rightarrow> files \<Rightarrow> string \<Rightarrow> error + asset" where
  "load_gif X fls file_name =
     (case dict_get fls file_name of
        Inl e \<Rightarrow> Inl e
      | Inr (Raw gif) \<Rightarrow>
          (case anchor_config X fls (fst (splitext file_name) @ ''.ini'') of
             Inl e \<Rightarrow> Inl e
           | Inr cfg \<Rightarrow>
               (case from_file X gif cfg of Inl e \<Rightarrow> Inl e | Inr a \<Rightarrow> Inr (Sprite a)))
      | Inr _ \<Rightarrow> Inl TypeError)"

section \<open>Resource\<close>

text \<open>The table \<open>Resource.FROM_EXTENSION\<close>.\<close>

definition FROM_EXTENSION ::
  "string \<Rightarrow> (external \<Rightarrow> files \<Rightarrow> string \<Rightarrow> error + asset) option" where
  "FROM_EXTENSION ext =
     (if ext = ''.ini'' then Some load_ini
      else if ext = ''.gif'' then Some load_gif
      else if ext = ''.png'' then Some load_png
      else if ext = ''.txt'' then Some load_txt
      else None)"

text \<open>
  What \<open>Resource.__init__\<close> finds at the resource path: a directory, whose listing holds
  files and subdirectories, or else a zip archive with its entries in order (a directory
  inside an archive is an entry whose name ends in a slash and whose payload is empty).
  A file of a directory holds its stored bytes.
\<close>

datatype dir_entry = File bytes | SubDirectory

datatype container =
    Directory "(string \<times> dir_entry) list"
  | ZipArchive "(string \<times> bytes) list"
  | Missing

text \<open>
  The directory branch: every listed name is opened, which a subdirectory cannot be, and
  the value stored is what \<open>open(...).read()\<close> returns for the bytes of the file.
\<close>

fun read_directory ::
  "external \<Rightarrow> (string \<times> dir_entry) list \<Rightarrow> files \<Rightarrow> error + files" where
  "read_directory X [] fls = Inr fls"
| "read_directory X ((file_name, entry) # rest) fls =
     (case entry of
        SubDirectory \<Rightarrow> Inl IOError
      | File stored \<Rightarrow>
          (case open_read X stored of
             Inl e \<Rightarrow> Inl e
           | Inr file_data \<Rightarrow> read_directory X rest (AList.update file_name file_data fls)))"

text \<open>
  The zip branch: every name of \<open>namelist()\<close> is read, except that
  \<open>if not file_name: continue\<close> skips the empty name. \<open>zip_file.open(name)\<close> reads the
  last entry of that name.
\<close>

definition zip_open_read :: "(string \<times> bytes) list \<Rightarrow> string \<Rightarrow> error + bytes" where
  "zip_open_read z file_name = dict_get (rev z) file_name"

fun read_zip_loop :: "(string \<times> bytes) list \<Rightarrow> string list \<Rightarrow> files \<Rightarrow> error + files" where
  "read_zip_loop z [] fls = Inr fls"
| "read_zip_loop z (file_name # rest) fls =
     (if file_name = [] then read_zip_loop z rest fls
      else (case zip_open_read z file_name of
              Inl e \<Rightarrow> Inl e
            | Inr file_data \<Rightarrow> read_zip_loop z rest (AList.update file_name (Raw file_data) fls)))"

definition read_zip :: "(string \<times> bytes) list \<Rightarrow> error + files" where
  "read_zip z = read_zip_loop z (map fst z) []"

definition read_container :: "external \<Rightarrow> container \<Rightarrow> error + files" where
  "read_container X c =
     (case c of
        Directory d \<Rightarrow> read_directory X d []
      | ZipArchive z \<Rightarrow> read_zip z
      | Missing \<Rightarrow> Inl IOError)"

text \<open>
  The decode pass: for every key in turn, the value is replaced by the output of the
  handler of its extension, which is given the dictionary as it is at that moment.
\<close>

definition decode_entry :: "external \<Rightarrow> files \<Rightarrow> string \<Rightarrow> error + asset" where
  "decode_entry X fls file_name =
     (case dict_get fls file_name of
        Inl e \<Rightarrow> Inl e
      | Inr file_data \<Rightarrow>
          (case FROM_EXTENSION (snd (splitext file_name)) of
             None \<Rightarrow> Inr file_data
           | Some file_handler \<Rightarrow> file_handler X fls file_name))"

fun decode_pass :: "external \<Rightarrow> string list \<Rightarrow> files \<Rightarrow> error + files" where
  "decode_pass X [] fls = Inr fls"
| "decode_pass X (file_name # rest) fls =
     (case decode_entry X fls file_name of
        Inl e \<Rightarrow> Inl e
      | Inr file_data \<Rightarrow> decode_pass X rest (AList.update file_name file_data fls))"

definition Resource_init :: "external \<Rightarrow> container \<Rightarrow> error + files" where
  "Resource_init X c =
     (case read_container X c of
        Inl e \<Rightarrow> Inl e
      | Inr fls \<Rightarrow> decode_pass X (map fst fls) fls)"

text \<open>\<open>Resource.get_type\<close>: the entries of an extension, or None when there are none.\<close>

definition get_type :: "files \<Rightarrow> string \<Rightarrow> files option" where
  "get_type fls file_extension =
     (let matching_files = filter (\<lambda>(file_name, file_content). snd (splitext file_name) = file_extension) fls
      in if matching_files = [] then None else Some matching_files)"

section \<open>Walkabout\<close>

text \<open>
  The module \<open>constants\<close> with the enumerations \<open>Action\<close> and \<open>Direction\<close> is not among
  the source files. The constructor uses two of their members and looks members up by
  name with \<open>getattr\<close>, which raises AttributeError for a name that is not found; these
  are parameters of the model, over any types \<open>'a\<close> of actions and \<open>'d\<close> of directions.
\<close>

record ('a, 'd) constants =
  Action_stand :: 'a
  Direction_south :: 'd
  getattr_Action :: "string \<Rightarrow> 'a option"
  getattr_Direction :: "string \<Rightarrow> 'd option"

text \<open>
  The dictionary of dictionaries \<open>animations[action][direction]\<close>. The children of a
  walkabout are walkabouts themselves; their type is left open.
\<close>

type_synonym ('a, 'd) animations = "('a \<times> ('d \<times> asset) list) list"

record ('a, 'd, 'c) Walkabout =
  wk_animations :: "('a, 'd) animations"
  wk_actions :: "'a list"
  wk_directions :: "'d list"
  wk_size :: "nat \<times> nat"
  wk_rect :: "(int \<times> int) \<times> (nat \<times> nat)"
  wk_topleft_float :: "int \<times> int"
  wk_action :: 'a
  wk_direction :: 'd
  wk_child_walkabouts :: "'c list"
  wk_resource :: files
  wk_image :: asset

text \<open>
  The bare file name of a sprite path: \<open>os.path.split(os.path.splitext(path)[0])[1]\<close>.
\<close>

definition bare_name :: "string \<Rightarrow> string" where
  "bare_name sprite_path = path_tail (fst (splitext sprite_path))"

text \<open>
  The body of the loop up to the two \<open>getattr\<close> calls: \<open>only\<close> stands for (stand,
  south); any other name is split at its first underscore into exactly two tokens
  (ValueError when there is no underscore), and the direction is looked up before the
  action.
\<close>

definition parse_name :: "('a, 'd) constants \<Rightarrow> string \<Rightarrow> error + 'a \<times> 'd" where
  "parse_name C file_name =
     (if file_name = ''only'' then Inr (Action_stand C, Direction_south C)
      else (case split_once CHR ''_'' file_name of
              [action, direction] \<Rightarrow>
                (case getattr_Direction C direction of
                   None \<Rightarrow> Inl AttributeError
                 | Some d \<Rightarrow>
                     (case getattr_Action C action of
                        None \<Rightarrow> Inl AttributeError
                      | Some a \<Rightarrow> Inr (a, d)))
            | _ \<Rightarrow> Inl ValueError))"

text \<open>
  \<open>self.animations[action][direction] = animation\<close>, and on KeyError
  \<open>self.animations[action] = {direction: animation}\<close>.
\<close>

definition set_animation ::
  "('a, 'd) animations \<Rightarrow> 'a \<Rightarrow> 'd \<Rightarrow> asset \<Rightarrow> ('a, 'd) animations" where
  "set_animation anims a d animation =
     (case map_of anims a of
        Some inner \<Rightarrow> AList.update a (AList.update d animation inner) anims
      | None \<Rightarrow> AList.update a [(d, animation)] anims)"

text \<open>
  The loop over \<open>sprite_files.keys()\<close>. Its state is the attributes it fills and the
  variable \<open>animation\<close>, which keeps the value of the last round after the loop.
\<close>

fun walkabout_loop ::
  "('a, 'd) constants \<Rightarrow> files \<Rightarrow> string list \<Rightarrow>
   ('a, 'd) animations \<times> 'a list \<times> 'd list \<times> asset option \<Rightarrow>
   error + ('a, 'd) animations \<times> 'a list \<times> 'd list \<times> asset option" where
  "walkabout_loop C sprite_files [] st = Inr st"
| "walkabout_loop C sprite_files (sprite_path # rest) (anims, acts, dirs, last_animation) =
     (case parse_name C (bare_name sprite_path) of
        Inl e \<Rightarrow> Inl e
      | Inr (a, d) \<Rightarrow>
          (case dict_get sprite_files sprite_path of
             Inl e \<Rightarrow> Inl e
           | Inr animation \<Rightarrow>
               walkabout_loop C sprite_files rest
                 (set_animation anims a d animation, acts @ [a], dirs @ [d], Some animation)))"

text \<open>\<open>animation.largest_frame_size()\<close> on a stored asset; only a sprite has the method.\<close>

definition asset_largest_frame_size :: "asset \<Rightarrow> error + nat \<times> nat" where
  "asset_largest_frame_size v =
     (case v of Sprite a \<Rightarrow> Inr (largest_frame_size a) | _ \<Rightarrow> Inl AttributeError)"

text \<open>
  \<open>Walkabout.__init__\<close> from the loaded resource on. BadWalkabout is raised when
  \<open>get_type('.gif')\<close> is None. The size is taken from the variable \<open>animation\<close> after the
  loop; the last statement looks up \<open>animations[stand][south]\<close>.
\<close>

definition Walkabout_from_resource ::
  "('a, 'd) constants \<Rightarrow> string \<Rightarrow> files \<Rightarrow> (int \<times> int) option \<Rightarrow> 'c list \<Rightarrow>
   error + ('a, 'd, 'c) Walkabout" where
  "Walkabout_from_resource C directory resource position children =
     (let pos = (case position of None \<Rightarrow> (0, 0) | Some p \<Rightarrow> p) in
      case get_type resource ''.gif'' of
        None \<Rightarrow> Inl (BadWalkabout directory)
      | Some sprite_files \<Rightarrow>
          (case walkabout_loop C sprite_files (map fst sprite_files) ([], [], [], None) of
             Inl e \<Rightarrow> Inl e
           | Inr (anims, acts, dirs, last_animation) \<Rightarrow>
               (case last_animation of
                  None \<Rightarrow> Inl UnboundLocalError
                | Some animation \<Rightarrow>
                    (case asset_largest_frame_size animation of
                       Inl e \<Rightarrow> Inl e
                     | Inr sz \<Rightarrow>
                         (case dict_get anims (Action_stand C) of
                            Inl e \<Rightarrow> Inl e
                          | Inr inner \<Rightarrow>
                              (case dict_get inner (Direction_south C) of
                                 Inl e \<Rightarrow> Inl e
                               | Inr img \<Rightarrow>
                                   Inr \<lparr>wk_animations = anims,
                                        wk_actions = acts,
                                        wk_directions = dirs,
                                        wk_size = sz,
                                        wk_rect = (pos, sz),
                                        wk_topleft_float = pos,
                                        wk_action = Action_stand C,
                                        wk_direction = Direction_south C,
                                        wk_child_walkabouts = children,
                                        wk_resource = resource,
                                        wk_image = img\<rparr>))))))"

definition Walkabout_init ::
  "('a, 'd) constants \<Rightarrow> external \<Rightarrow> container \<Rightarrow> string \<Rightarrow> (int \<times> int) option \<Rightarrow>
   'c list \<Rightarrow> error + ('a, 'd, 'c) Walkabout" where
  "Walkabout_init C X found directory position children =
     (case Resource_init X found of
        Inl e \<Rightarrow> Inl e
      | Inr resource \<Rightarrow> Walkabout_from_resource C directory resource position children)"

text \<open>
  The largest frame over a list of sprites, by area, for comparison with the size a
  walkabout records.
\<close>

definition largest_frame_size_of_all :: "AnimatedSprite list \<Rightarrow> nat \<times> nat" where
  "largest_frame_size_of_all sprites = largest_frame_size_loop (0, 0) (concat (map frames sprites))"

section \<open>States of the decode pass\<close>

text \<open>
  \<open>raw_files\<close>: the dictionary as the archive reader leaves it, every value a raw
  payload. \<open>pass_state X raw seen cur\<close>: the dictionary \<open>cur\<close> in the middle of a decode
  pass over \<open>raw\<close>, when the keys in \<open>seen\<close> have been replaced by what their handler
  returns on \<open>raw\<close> and every other key still has its value of \<open>raw\<close>.
\<close>

definition is_raw :: "asset \<Rightarrow> bool" where
  "is_raw v = (case v of Raw b \<Rightarrow> True | _ \<Rightarrow> False)"

definition raw_files :: "files \<Rightarrow> bool" where
  "raw_files fls = list_all (\<lambda>(k, v). is_raw v) fls"

definition pass_state :: "external \<Rightarrow> files \<Rightarrow> string set \<Rightarrow> files \<Rightarrow> bool" where
  "pass_state X raw seen cur =
     (\<forall>k. (k \<in> seen \<longrightarrow> (\<exists>v. decode_entry X raw k = Inr v \<and> map_of cur k = Some v)) \<and>
          (k \<notin> seen \<longrightarrow> map_of cur k = map_of raw k))"

text \<open>What \<open>load_gif\<close> returns, given the outcome of \<open>AnimatedSprite.from_file\<close>.\<close>

definition sprite_result :: "error + AnimatedSprite \<Rightarrow> error + asset" where
  "sprite_result r = (case r of Inl e \<Rightarrow> Inl e | Inr a \<Rightarrow> Inr (Sprite a))"

section \<open>Sample values\<close>

text \<open>Concrete surfaces, frames and sprites at which the theorems below are instantiated.\<close>

definition red_pixel :: Surface where
  "red_pixel = \<lparr>sf_width = 1, sf_height = 1, sf_pixels = [(255, 0, 0, 255)]\<rparr>"

definition blue_pixel :: Surface where
  "blue_pixel = \<lparr>sf_width = 1, sf_height = 1, sf_pixels = [(0, 0, 255, 255)]\<rparr>"

definition sample_sprite :: AnimatedSprite where
  "sample_sprite =
     \<lparr>frames = frames_from_list 0 [(red_pixel, 100), (blue_pixel, 150)],
      total_duration = 250, active_frame_index = 0, animation_position = 0,
      image_attr = red_pixel, rect = ((0, 0), (1, 1))\<rparr>"

definition still_frame :: AnimatedSpriteFrame where
  "still_frame = AnimatedSpriteFrame_init red_pixel 0 0 None"

definition still_sprite :: AnimatedSprite where
  "still_sprite =
     \<lparr>frames = [still_frame], total_duration = 0, active_frame_index = 0,
      animation_position = 0, image_attr = red_pixel, rect = ((0, 0), (1, 1))\<rparr>"

definition two_by_one :: "color \<Rightarrow> color \<Rightarrow> Surface" where
  "two_by_one c0 c1 = \<lparr>sf_width = 2, sf_height = 1, sf_pixels = [c0, c1]\<rparr>"

definition red :: color where
  "red = (255, 0, 0, 255)"

definition blue :: color where
  "blue = (0, 0, 255, 255)"

text \<open>
  A sample of the library parameters, under Python 3: bytes below 128 decode to the same
  characters, in \<open>bytes.decode\<close> and in a text-mode read alike, the configuration reader
  and the image opener know the two sample payloads, and \<open>int\<close> knows the digits the
  sample configuration uses.
\<close>

definition sample_ini :: bytes where
  "sample_ini = ''[head_anchor]'' @ [CHR 0x0A] @ ''0=1,2''"

definition sample_config :: config where
  "sample_config = [(''head_anchor'', [(''0'', ''1,2'')])]"

definition other_config :: config where
  "other_config = [(''head_anchor'', [(''0'', ''2,1'')])]"

definition sample_gif :: bytes where
  "sample_gif = ''GIF89a''"

definition ascii_decode :: "bytes \<Rightarrow> error + string" where
  "ascii_decode b =
     (if list_all (\<lambda>c. (of_char c :: nat) < 128) b then Inr b else Inl UnicodeDecodeError)"

definition sample_external :: external where
  "sample_external =
     \<lparr>decode_utf8 = ascii_decode,
      read_config = (\<lambda>t. if t = sample_ini then Inr sample_config else Inl ParsingError),
      image_open =
        (\<lambda>b. if b = sample_gif then Inr [\<lparr>pf_surface = red_pixel, pf_duration = Some 100\<rparr>]
              else Inl IOError),
      py_int =
        (\<lambda>s. if s = ''1'' then Inr 1 else if s = ''2'' then Inr 2 else Inl ValueError),
      open_read = python3_open_read ascii_decode\<rparr>"

definition anchored_sprite :: "int \<Rightarrow> int \<Rightarrow> AnimatedSprite" where
  "anchored_sprite ax ay =
     \<lparr>frames = [AnimatedSpriteFrame_init red_pixel 0 100 (Some [(''head_anchor'', Anchor ax ay)])],
      total_duration = 100, active_frame_index = 0, animation_position = 0,
      image_attr = red_pixel, rect = ((0, 0), (1, 1))\<rparr>"

definition sample_directory :: "(string \<times> dir_entry) list" where
  "sample_directory = [(''a.png'', File ''x'')]"

definition sample_zip :: "(string \<times> bytes) list" where
  "sample_zip = [(''a.png'', ''x'')]"

definition sidecar_raw :: files where
  "sidecar_raw = [(''a.ini'', Raw sample_ini), (''a.gif'', Raw sample_gif)]"

definition sidecar_decoded :: "config \<Rightarrow> files" where
  "sidecar_decoded c = [(''a.ini'', Config c), (''a.gif'', Raw sample_gif)]"

text \<open>
  Modelled from the spec: the enumerations \<open>constants.Action\<close> and
  \<open>constants.Direction\<close> are not among the source files. The sample instance of the
  parameters has the members the spec and \<open>runtime_setup\<close> name: the actions stand and
  walk, the directions north, south, east and west.
\<close>

datatype Action = stand | walk

datatype Direction = north | south | east | west

definition sample_constants :: "(Action, Direction) constants" where
  "sample_constants =
     \<lparr>Action_stand = stand, Direction_south = south,
      getattr_Action =
        (\<lambda>s. if s = ''stand'' then Some stand else if s = ''walk'' then Some walk else None),
      getattr_Direction =
        (\<lambda>s. if s = ''north'' then Some north else if s = ''south'' then Some south
              else if s = ''east'' then Some east else if s = ''west'' then Some west
              else None)\<rparr>"

definition big_surface :: Surface where
  "big_surface = \<lparr>sf_width = 2, sf_height = 2, sf_pixels = [red, red, blue, blue]\<rparr>"

definition big_sprite :: AnimatedSprite where
  "big_sprite =
     \<lparr>frames = [AnimatedSpriteFrame_init big_surface 0 100 None],
      total_duration = 100, active_frame_index = 0, animation_position = 0,
      image_attr = big_surface, rect = ((0, 0), (2, 2))\<rparr>"

definition two_gifs :: files where
  "two_gifs = [(''stand_south.gif'', Sprite big_sprite), (''walk_north.gif'', Sprite sample_sprite)]"

definition no_gifs :: files where
  "no_gifs = [(''readme.txt'', Text ''hello'')]"

definition bad_direction :: files where
  "bad_direction = [(''walk_up.gif'', Sprite sample_sprite)]"


section \<open>Properties of the animated sprite\<close>

lemma py_getitem_in_range:
  "0 \<le> i \<Longrightarrow> i < int (length xs) \<Longrightarrow> py_getitem xs i = Inr (xs ! nat i)"
  by (simp add: py_getitem_def)

lemma py_getitem_minus_one:
  "xs \<noteq> [] \<Longrightarrow> py_getitem xs (- 1) = Inr (last xs)"
  by (cases xs rule: rev_cases) (auto simp: py_getitem_def Let_def nth_append)

lemma contiguous_last_end:
  "contiguous_from t fs \<Longrightarrow> fs \<noteq> [] \<Longrightarrow> end_time (last fs) = t + total_duration_frames fs"
  by (induction fs arbitrary: t) (auto simp: total_duration_frames_def)

lemma advance_in_bounds:
  "0 \<le> idx \<Longrightarrow> idx < int (length fs) \<Longrightarrow> pos \<le> end_time (last fs) \<Longrightarrow>
   \<exists>j. advance fs pos idx = Inr j \<and> idx \<le> j \<and> j < int (length fs)"
proof (induction fs pos idx rule: advance.induct)
  case (1 fs pos idx)
  have g: "py_getitem fs idx = Inr (fs ! nat idx)"
    using "1.prems" by (simp add: py_getitem_in_range)
  show ?case
  proof (cases "pos > end_time (fs ! nat idx)")
    case False
    then show ?thesis using g "1.prems" by (subst advance.simps) simp
  next
    case True
    have ne: "fs \<noteq> []" using "1.prems" by auto
    have "nat idx \<noteq> length fs - 1"
      using True "1.prems"(3) ne by (auto simp: last_conv_nth)
    then have lt: "idx + 1 < int (length fs)" using "1.prems" by linarith
    from "1.IH"[OF g True _ lt "1.prems"(3)] "1.prems"(1)
    obtain j where "advance fs pos (idx + 1) = Inr j" "idx + 1 \<le> j" "j < int (length fs)"
      by auto
    then show ?thesis using g True by (subst advance.simps) auto
  qed
qed

lemma advance_stay:
  "0 \<le> idx \<Longrightarrow> idx < int (length fs) \<Longrightarrow> pos \<le> end_time (fs ! nat idx) \<Longrightarrow>
   advance fs pos idx = Inr idx"
  by (subst advance.simps) (simp add: py_getitem_in_range)

lemma py_getitem_ok:
  "- int (length xs) \<le> i \<Longrightarrow> i < int (length xs) \<Longrightarrow> \<exists>f. py_getitem xs i = Inr f"
  by (auto simp: py_getitem_def Let_def)

lemma valid_last_end:
  "valid_sprite s \<Longrightarrow> end_time (last (frames s)) = total_duration s"
  using contiguous_last_end [of 0 "frames s"] by (simp add: valid_sprite_def)

lemma valid_first_end:
  "valid_sprite s \<Longrightarrow> end_time (frames s ! 0) = duration (frames s ! 0)"
  by (cases "frames s") (auto simp: valid_sprite_def)

lemma update_from:
  assumes w: "wrap_position s (animation_position s + delta) = Inr (pos, idx0)"
    and a: "advance (frames s) pos idx0 = Inr idx"
    and b: "0 \<le> idx" "idx < int (length (frames s))"
  shows "\<exists>s'. AnimatedSprite_update s delta = Inr s' \<and> frames s' = frames s \<and>
           total_duration s' = total_duration s \<and> animation_position s' = pos \<and>
           active_frame_index s' = idx"
proof -
  obtain f where "py_getitem (frames s) (idx - 1) = Inr f"
    using py_getitem_ok [of "frames s" "idx - 1"] b by auto
  then show ?thesis using w a by (simp add: AnimatedSprite_update_def)
qed

lemma update_total:
  assumes v: "valid_sprite s"
    and i: "0 \<le> active_frame_index s" "active_frame_index s < int (length (frames s))"
  shows "\<exists>s'. AnimatedSprite_update s delta = Inr s' \<and> frames s' = frames s \<and>
           total_duration s' = total_duration s \<and>
           animation_position s' =
             (if animation_position s + delta \<ge> total_duration s
              then (animation_position s + delta) mod total_duration s
              else animation_position s + delta) \<and>
           0 \<le> active_frame_index s' \<and> active_frame_index s' < int (length (frames s))"
proof -
  let ?P = "animation_position s + delta" and ?T = "total_duration s"
  have T: "0 < ?T" and ne: "frames s \<noteq> []" using v by (auto simp: valid_sprite_def)
  define pos where "pos = (if ?P \<ge> ?T then ?P mod ?T else ?P)"
  define idx0 where "idx0 = (if ?P \<ge> ?T then 0 else active_frame_index s)"
  have w: "wrap_position s ?P = Inr (pos, idx0)"
    using T by (simp add: wrap_position_def pos_def idx0_def)
  have le: "pos \<le> end_time (last (frames s))"
    using T pos_mod_bound [of ?T ?P] by (simp add: valid_last_end [OF v] pos_def less_imp_le)
  have i0: "0 \<le> idx0" "idx0 < int (length (frames s))"
    using i ne by (auto simp: idx0_def)
  obtain j where j: "advance (frames s) pos idx0 = Inr j" "idx0 \<le> j" "j < int (length (frames s))"
    using advance_in_bounds [OF i0 le] by auto
  have "0 \<le> j" using j i0 by linarith
  from update_from [OF w j(1) this j(3)] show ?thesis
    using \<open>0 \<le> j\<close> j(3) by (auto simp: pos_def)
qed

lemma update_to_start:
  assumes v: "valid_sprite s" and d: "0 \<le> duration (frames s ! 0)"
    and p: "animation_position s + delta \<ge> total_duration s"
           "(animation_position s + delta) mod total_duration s = 0"
  shows "\<exists>s'. AnimatedSprite_update s delta = Inr s' \<and> frames s' = frames s \<and>
           total_duration s' = total_duration s \<and> animation_position s' = 0 \<and>
           active_frame_index s' = 0"
proof -
  have T: "0 < total_duration s" and ne: "frames s \<noteq> []" using v by (auto simp: valid_sprite_def)
  have w: "wrap_position s (animation_position s + delta) = Inr (0, 0)"
    using T p by (simp add: wrap_position_def)
  have a: "advance (frames s) 0 0 = Inr 0"
    using advance_stay [of 0 "frames s" 0] ne d valid_first_end [OF v] by simp
  from update_from [OF w a] ne show ?thesis by simp
qed

lemma update_zero_at_start:
  assumes v: "valid_sprite s" and d: "0 \<le> duration (frames s ! 0)"
    and p: "animation_position s = 0" "active_frame_index s = 0"
  shows "\<exists>s'. AnimatedSprite_update s 0 = Inr s' \<and> frames s' = frames s \<and>
           total_duration s' = total_duration s \<and> animation_position s' = 0 \<and>
           active_frame_index s' = 0"
proof -
  have T: "0 < total_duration s" and ne: "frames s \<noteq> []" using v by (auto simp: valid_sprite_def)
  have w: "wrap_position s (animation_position s + 0) = Inr (0, 0)"
    using T p by (simp add: wrap_position_def)
  have a: "advance (frames s) 0 0 = Inr 0"
    using advance_stay [of 0 "frames s" 0] ne d valid_first_end [OF v] by simp
  from update_from [OF w a] ne show ?thesis by simp
qed

lemma valid_sprite_cong:
  "valid_sprite s \<Longrightarrow> frames s' = frames s \<Longrightarrow> total_duration s' = total_duration s \<Longrightarrow>
   valid_sprite s'"
  by (simp add: valid_sprite_def)

lemma run_zeros:
  "valid_sprite s \<Longrightarrow> 0 \<le> duration (frames s ! 0) \<Longrightarrow> animation_position s = 0 \<Longrightarrow>
   active_frame_index s = 0 \<Longrightarrow> \<forall>d\<in>set ds. d = 0 \<Longrightarrow>
   \<exists>s'. run_ticks s ds = Inr s' \<and> active_frame_index s' = 0 \<and> animation_position s' = 0"
proof (induction ds arbitrary: s)
  case Nil
  then show ?case by simp
next
  case (Cons d ds)
  have d0: "d = 0" using Cons.prems by simp
  obtain s1 where s1: "AnimatedSprite_update s 0 = Inr s1" "frames s1 = frames s"
      "total_duration s1 = total_duration s" "animation_position s1 = 0" "active_frame_index s1 = 0"
    using update_zero_at_start [OF Cons.prems(1,2,3,4)] by auto
  have v1: "valid_sprite s1" using valid_sprite_cong [OF Cons.prems(1) s1(2,3)] .
  have "\<exists>s'. run_ticks s1 ds = Inr s' \<and> active_frame_index s' = 0 \<and> animation_position s' = 0"
    using Cons.IH [OF v1 _ s1(4,5)] Cons.prems(2,5) s1(2) by simp
  then show ?case using s1(1) d0 by simp
qed

lemma run_to_start:
  "valid_sprite s \<Longrightarrow> 0 \<le> duration (frames s ! 0) \<Longrightarrow>
   0 \<le> active_frame_index s \<Longrightarrow> active_frame_index s < int (length (frames s)) \<Longrightarrow>
   animation_position s < total_duration s \<Longrightarrow> \<forall>d\<in>set ds. 0 \<le> d \<Longrightarrow>
   animation_position s + sum_list ds = total_duration s \<Longrightarrow>
   \<exists>s'. run_ticks s ds = Inr s' \<and> active_frame_index s' = 0 \<and> animation_position s' = 0"
proof (induction ds arbitrary: s)
  case Nil
  then show ?case by simp
next
  case (Cons d ds)
  let ?P = "animation_position s + d" and ?T = "total_duration s"
  have rest: "0 \<le> sum_list ds" using Cons.prems(6) by (simp add: sum_list_nonneg)
  have T: "0 < ?T" using Cons.prems(1) by (simp add: valid_sprite_def)
  show ?case
  proof (cases "?P \<ge> ?T")
    case True
    then have eq: "?P = ?T" and z: "sum_list ds = 0" using rest Cons.prems(7) by auto
    have zs: "\<forall>d\<in>set ds. d = 0"
      using z Cons.prems(6) sum_list_nonneg_eq_0_iff [of ds] by auto
    obtain s1 where s1: "AnimatedSprite_update s d = Inr s1" "frames s1 = frames s"
        "total_duration s1 = total_duration s" "animation_position s1 = 0"
        "active_frame_index s1 = 0"
      using update_to_start [OF Cons.prems(1,2), of d] eq by auto
    have v1: "valid_sprite s1" using valid_sprite_cong [OF Cons.prems(1) s1(2,3)] .
    have "\<exists>s'. run_ticks s1 ds = Inr s' \<and> active_frame_index s' = 0 \<and> animation_position s' = 0"
      using run_zeros [OF v1 _ s1(4,5) zs] Cons.prems(2) s1(2) by simp
    then show ?thesis using s1(1) by simp
  next
    case False
    obtain s1 where s1: "AnimatedSprite_update s d = Inr s1" "frames s1 = frames s"
        "total_duration s1 = total_duration s" "animation_position s1 = ?P"
        "0 \<le> active_frame_index s1" "active_frame_index s1 < int (length (frames s))"
      using update_total [OF Cons.prems(1,3,4), of d] False by auto
    have v1: "valid_sprite s1" using valid_sprite_cong [OF Cons.prems(1) s1(2,3)] .
    have "\<exists>s'. run_ticks s1 ds = Inr s' \<and> active_frame_index s' = 0 \<and> animation_position s' = 0"
      using Cons.IH [OF v1] Cons.prems(2,6,7) s1 False by simp
    then show ?thesis using s1(1) by simp
  qed
qed

lemma init_fields:
  "AnimatedSprite_init fs = Inr s \<Longrightarrow>
   fs \<noteq> [] \<and> frames s = fs \<and> total_duration s = total_duration_frames fs \<and>
   active_frame_index s = 0 \<and> animation_position s = 0 \<and> image_attr s = surface (fs ! 0)"
  by (cases fs) (auto simp: AnimatedSprite_init_def py_getitem_def Let_def split: if_splits)

lemma init_nonempty:
  "fs \<noteq> [] \<Longrightarrow> \<exists>s. AnimatedSprite_init fs = Inr s"
  by (cases fs) (auto simp: AnimatedSprite_init_def py_getitem_def Let_def)

text \<open>
  The boundary scenario on the cursor. A sprite of two frames lasting 100 ms and 150 ms
  has total duration 250 and starts at index 0, elapsed 0. A tick of 99 leaves the cursor
  at index 0 (elapsed 99); a tick of 2 more moves it to index 1 (elapsed 101); a tick of
  150 more wraps the elapsed time to 1 and resets the index to 0. \<open>active_frame()\<close>
  returns the frame at the index.
\<close>

lemma boundary_scenario_cursor:
  "\<exists>a0 a1 a2 a3.
     from_surface_duration_list [(s0, 100), (s1, 150)] = Inr a0 \<and>
     total_duration a0 = 250 \<and> active_frame_index a0 = 0 \<and> animation_position a0 = 0 \<and>
     AnimatedSprite_update a0 99 = Inr a1 \<and>
     active_frame_index a1 = 0 \<and> animation_position a1 = 99 \<and>
     active_frame a1 = Inr (AnimatedSpriteFrame_init s0 0 100 None) \<and>
     AnimatedSprite_update a1 2 = Inr a2 \<and>
     active_frame_index a2 = 1 \<and> animation_position a2 = 101 \<and>
     active_frame a2 = Inr (AnimatedSpriteFrame_init s1 100 150 None) \<and>
     AnimatedSprite_update a2 150 = Inr a3 \<and>
     active_frame_index a3 = 0 \<and> animation_position a3 = 1 \<and>
     active_frame a3 = Inr (AnimatedSpriteFrame_init s0 0 100 None)"
  by (simp add: from_surface_duration_list_def AnimatedSprite_init_def AnimatedSprite_update_def
      wrap_position_def total_duration_frames_def active_frame_def py_getitem_def
      AnimatedSpriteFrame_init_def advance.simps)

text \<open>
  The \<open>image\<close> attribute written by the same three ticks, the surface the sprite shows,
  is \<open>frames[active_frame_index - 1]\<close>: it trails the cursor by one frame, and at index 0
  it is the last frame.
\<close>

lemma boundary_scenario_image:
  "\<exists>a0 a1 a2 a3.
     from_surface_duration_list [(s0, 100), (s1, 150)] = Inr a0 \<and> image_attr a0 = s0 \<and>
     AnimatedSprite_update a0 99 = Inr a1 \<and> image_attr a1 = s1 \<and>
     AnimatedSprite_update a1 2 = Inr a2 \<and> image_attr a2 = s0 \<and>
     AnimatedSprite_update a2 150 = Inr a3 \<and> image_attr a3 = s1"
  by (simp add: from_surface_duration_list_def AnimatedSprite_init_def AnimatedSprite_update_def
      wrap_position_def total_duration_frames_def active_frame_def py_getitem_def
      AnimatedSpriteFrame_init_def advance.simps)

lemma sample_sprite_init:
  "from_surface_duration_list [(red_pixel, 100), (blue_pixel, 150)] = Inr sample_sprite"
  by (simp add: from_surface_duration_list_def AnimatedSprite_init_def py_getitem_def
      total_duration_frames_def AnimatedSpriteFrame_init_def sample_sprite_def get_size_def
      red_pixel_def)

text \<open>
  Claim C1 on the sprite with a red first frame (100 ms) and a blue second frame
  (150 ms). After the tick of 99 the cursor is at index 0, elapsed 99, and the image that
  \<open>update\<close> publishes is the blue surface of frame 1, since index -1 is the last frame.
  After 2 more the cursor is at index 1, elapsed 101, and the image is the red surface of
  frame 0. After 150 more the cursor is at index 0, elapsed 1, and the image is blue
  again. The sprite shows frames 1, 0, 1 where the claim says 0, 1, 0.
\<close>

theorem update_image_trails_cursor:
  "from_surface_duration_list [(red_pixel, 100), (blue_pixel, 150)] = Inr sample_sprite \<and>
   map surface (frames sample_sprite) = [red_pixel, blue_pixel] \<and>
   red_pixel \<noteq> blue_pixel \<and>
   AnimatedSprite_update sample_sprite 99 =
     Inr (sample_sprite\<lparr>active_frame_index := 0, animation_position := 99,
                         image_attr := blue_pixel\<rparr>) \<and>
   AnimatedSprite_update
     (sample_sprite\<lparr>active_frame_index := 0, animation_position := 99,
                     image_attr := blue_pixel\<rparr>) 2 =
     Inr (sample_sprite\<lparr>active_frame_index := 1, animation_position := 101,
                         image_attr := red_pixel\<rparr>) \<and>
   AnimatedSprite_update
     (sample_sprite\<lparr>active_frame_index := 1, animation_position := 101,
                     image_attr := red_pixel\<rparr>) 150 =
     Inr (sample_sprite\<lparr>active_frame_index := 0, animation_position := 1,
                         image_attr := blue_pixel\<rparr>)"
  by (simp add: sample_sprite_init)
    (simp add: sample_sprite_def AnimatedSprite_update_def wrap_position_def advance.simps
      py_getitem_def AnimatedSpriteFrame_init_def get_size_def red_pixel_def blue_pixel_def)

lemma sample_sprite_valid: "valid_sprite sample_sprite"
  by (simp add: valid_sprite_def sample_sprite_def total_duration_frames_def
      AnimatedSpriteFrame_init_def)

lemma sample_sprite_cursor: "cursor_inv sample_sprite"
  by (simp add: cursor_inv_def sample_sprite_def)

text \<open>
  Claim C10. On a sprite whose frames form a contiguous timeline from 0 with a positive
  total duration, an update by a non-negative delta returns normally and keeps
  \<open>0 \<le> active_frame_index < len(frames)\<close> and
  \<open>0 \<le> animation_position < total_duration\<close>; so neither the frame-advance loop nor
  a frame lookup leaves the frame list.
\<close>

theorem update_preserves_cursor_invariant:
  assumes "valid_sprite s" and "cursor_inv s" and "0 \<le> delta"
  shows "\<exists>s'. AnimatedSprite_update s delta = Inr s' \<and> frames s' = frames s \<and>
           total_duration s' = total_duration s \<and> valid_sprite s' \<and> cursor_inv s'"
proof -
  have i: "0 \<le> active_frame_index s" "active_frame_index s < int (length (frames s))"
    and p: "0 \<le> animation_position s" "animation_position s < total_duration s"
    using assms(2) by (auto simp: cursor_inv_def)
  let ?P = "animation_position s + delta" and ?T = "total_duration s"
  have T: "0 < ?T" using assms(1) by (simp add: valid_sprite_def)
  obtain s' where s': "AnimatedSprite_update s delta = Inr s'" "frames s' = frames s"
      "total_duration s' = ?T"
      "animation_position s' = (if ?P \<ge> ?T then ?P mod ?T else ?P)"
      "0 \<le> active_frame_index s'" "active_frame_index s' < int (length (frames s))"
    using update_total [OF assms(1) i, of delta] by auto
  have "0 \<le> animation_position s'" "animation_position s' < ?T"
    using s'(4) T p(1) assms(3) by (auto simp: pos_mod_bound)
  then have "cursor_inv s'" using s' by (simp add: cursor_inv_def)
  moreover have "valid_sprite s'" using valid_sprite_cong [OF assms(1) s'(2,3)] .
  ultimately show ?thesis using s' by auto
qed

theorem update_preserves_cursor_invariant_witness:
  "valid_sprite sample_sprite \<and> cursor_inv sample_sprite \<and> (0::int) \<le> 99 \<and>
   (\<exists>s'. AnimatedSprite_update sample_sprite 99 = Inr s' \<and>
      frames s' = frames sample_sprite \<and> total_duration s' = total_duration sample_sprite \<and>
      valid_sprite s' \<and> cursor_inv s')"
  using update_preserves_cursor_invariant [OF sample_sprite_valid sample_sprite_cursor, of 99]
    sample_sprite_valid sample_sprite_cursor
  by simp

text \<open>
  Claim C9. A freshly constructed sprite with a contiguous timeline from 0, non-negative
  frame durations and a positive total duration, driven by non-negative deltas that sum
  to exactly one total duration, ends with active frame index 0 and elapsed time 0: every
  tick returns normally and the cursor is back at its initial state.
\<close>

theorem full_cycle_returns_to_start:
  assumes "AnimatedSprite_init fs = Inr s" and "contiguous_from 0 fs"
    and "0 < total_duration s" and "\<forall>f\<in>set fs. 0 \<le> duration f"
    and "\<forall>d\<in>set ds. 0 \<le> d" and "sum_list ds = total_duration s"
  shows "\<exists>s'. run_ticks s ds = Inr s' \<and> active_frame_index s' = 0 \<and>
           animation_position s' = 0"
proof -
  have f: "fs \<noteq> []" "frames s = fs" "total_duration s = total_duration_frames fs"
      "active_frame_index s = 0" "animation_position s = 0"
    using init_fields [OF assms(1)] by auto
  have v: "valid_sprite s" using f assms(2,3) by (simp add: valid_sprite_def)
  have d: "0 \<le> duration (frames s ! 0)" using f assms(4) by (cases fs) auto
  show ?thesis
    using run_to_start [OF v d, of ds] f assms(3,5,6) by simp
qed

theorem full_cycle_returns_to_start_witness:
  "AnimatedSprite_init (frames sample_sprite) = Inr sample_sprite \<and>
   contiguous_from 0 (frames sample_sprite) \<and> 0 < total_duration sample_sprite \<and>
   list_all (\<lambda>f. 0 \<le> duration f) (frames sample_sprite) \<and>
   list_all (\<lambda>d. 0 \<le> d) [99, 2, 149 :: int] \<and>
   sum_list [99, 2, 149] = total_duration sample_sprite \<and>
   (\<exists>s'. run_ticks sample_sprite [99, 2, 149] = Inr s' \<and> active_frame_index s' = 0 \<and>
      animation_position s' = 0)"
proof -
  have a: "AnimatedSprite_init (frames sample_sprite) = Inr sample_sprite"
    using sample_sprite_init by (simp add: from_surface_duration_list_def sample_sprite_def)
  have b: "contiguous_from 0 (frames sample_sprite)"
    using sample_sprite_valid by (simp add: valid_sprite_def)
  have c: "0 < total_duration sample_sprite" by (simp add: sample_sprite_def)
  have d: "\<forall>f\<in>set (frames sample_sprite). 0 \<le> duration f"
    by (simp add: sample_sprite_def AnimatedSpriteFrame_init_def)
  have e: "\<forall>d\<in>set [99, 2, 149 :: int]. 0 \<le> d" by simp
  have g: "sum_list [99, 2, 149] = total_duration sample_sprite" by (simp add: sample_sprite_def)
  show ?thesis
    using full_cycle_returns_to_start [OF a b c d e g] a b c d g by (simp add: list_all_iff)
qed

text \<open>
  Claim C2 says that a negative delta and a zero total duration are rejected with an
  InvalidArgument error. The code has no such check: on the sample sprite a delta of -5
  returns normally and moves the elapsed time to -5, and a single frame of duration 0 is
  constructed into a sprite of total duration 0.
\<close>

theorem update_accepts_negative_delta_counterexample:
  "AnimatedSprite_update sample_sprite (- 5) =
     Inr (sample_sprite\<lparr>animation_position := - 5, image_attr := blue_pixel\<rparr>) \<and>
   AnimatedSprite_init [still_frame] = Inr still_sprite"
  by (simp add: still_sprite_def AnimatedSprite_update_def wrap_position_def sample_sprite_def advance.simps
      py_getitem_def AnimatedSpriteFrame_init_def get_size_def blue_pixel_def red_pixel_def
      AnimatedSprite_init_def still_frame_def total_duration_frames_def)

text \<open>
  Claim C2, amended. On a sprite with a contiguous timeline from 0, a positive total
  duration and its index inside the frame list, \<open>update\<close> returns normally for every
  delta, negative ones included, and the new elapsed time is the old one plus the delta,
  reduced modulo the total duration when it reaches it. Construction succeeds for every
  non-empty frame list; when the total duration is 0, the first update by a non-negative
  delta raises ZeroDivisionError.
\<close>

theorem update_never_rejects:
  "(valid_sprite s \<and> 0 \<le> active_frame_index s \<and>
      active_frame_index s < int (length (frames s)) \<longrightarrow>
      (\<exists>s'. AnimatedSprite_update s delta = Inr s' \<and>
         animation_position s' =
           (if animation_position s + delta \<ge> total_duration s
            then (animation_position s + delta) mod total_duration s
            else animation_position s + delta))) \<and>
   (fs \<noteq> [] \<longrightarrow> (\<exists>a. AnimatedSprite_init fs = Inr a)) \<and>
   (AnimatedSprite_init fs = Inr a \<and> total_duration a = 0 \<and> 0 \<le> tick \<longrightarrow>
      AnimatedSprite_update a tick = Inl ZeroDivisionError)"
proof (intro conjI impI)
  assume "valid_sprite s \<and> 0 \<le> active_frame_index s \<and>
      active_frame_index s < int (length (frames s))"
  then show "\<exists>s'. AnimatedSprite_update s delta = Inr s' \<and>
         animation_position s' =
           (if animation_position s + delta \<ge> total_duration s
            then (animation_position s + delta) mod total_duration s
            else animation_position s + delta)"
    using update_total [of s delta] by auto
next
  assume "fs \<noteq> []"
  then show "\<exists>a. AnimatedSprite_init fs = Inr a" by (rule init_nonempty)
next
  assume h: "AnimatedSprite_init fs = Inr a \<and> total_duration a = 0 \<and> 0 \<le> tick"
  then have "animation_position a = 0" using init_fields [of fs a] by simp
  then show "AnimatedSprite_update a tick = Inl ZeroDivisionError"
    using h by (simp add: AnimatedSprite_update_def wrap_position_def)
qed

lemma still_sprite_init: "AnimatedSprite_init [still_frame] = Inr still_sprite"
  by (simp add: still_sprite_def AnimatedSprite_init_def py_getitem_def still_frame_def
      AnimatedSpriteFrame_init_def total_duration_frames_def get_size_def red_pixel_def)

theorem update_never_rejects_witness:
  "valid_sprite sample_sprite \<and> 0 \<le> active_frame_index sample_sprite \<and>
   active_frame_index sample_sprite < int (length (frames sample_sprite)) \<and>
   (\<exists>s'. AnimatedSprite_update sample_sprite (- 5) = Inr s' \<and> animation_position s' = - 5) \<and>
   [still_frame] \<noteq> [] \<and> AnimatedSprite_init [still_frame] = Inr still_sprite \<and>
   total_duration still_sprite = 0 \<and> (0::int) \<le> 0 \<and>
   AnimatedSprite_update still_sprite 0 = Inl ZeroDivisionError"
proof -
  have i: "0 \<le> active_frame_index sample_sprite"
    "active_frame_index sample_sprite < int (length (frames sample_sprite))"
    "animation_position sample_sprite = 0" "total_duration sample_sprite = 250"
    by (simp_all add: sample_sprite_def)
  have t: "total_duration still_sprite = 0" by (simp add: still_sprite_def)
  show ?thesis
    using update_never_rejects [of sample_sprite "- 5" "[still_frame]" still_sprite 0]
      sample_sprite_valid i still_sprite_init t
    by simp
qed

section \<open>Properties of palette cycling\<close>

lemma coordinates_two_by_one: "coordinates 2 (Suc 0) = [(0, 0), (Suc 0, 0)]"
  by (simp add: coordinates_def numeral_2_eq_2 upt_rec)

lemma get_at_two_by_one:
  "get_at (two_by_one c0 c1) (0, 0) = Inr c0" "get_at (two_by_one c0 c1) (Suc 0, 0) = Inr c1"
  by (simp_all add: get_at_def two_by_one_def)

lemma set_at_two_by_one:
  "set_at (two_by_one c0 c1) (0, 0) c = two_by_one c c1"
  "set_at (two_by_one c0 c1) (Suc 0, 0) c = two_by_one c0 c"
  by (simp_all add: set_at_def two_by_one_def)

lemma discover_two_by_one:
  "c0 \<noteq> c1 \<Longrightarrow> discover_colors (two_by_one c0 c1) [(0, 0), (Suc 0, 0)] [] {} = Inr [c0, c1]"
  by (simp add: get_at_two_by_one)

lemma replace_two_by_one:
  "c0 \<noteq> c1 \<Longrightarrow>
   replace_colors (color_translations [c0, c1] (rotate_right [c0, c1])) (two_by_one c0 c1)
     [(0, 0), (Suc 0, 0)] = Inr (two_by_one c1 c0)"
  by (simp add: get_at_two_by_one set_at_two_by_one color_translations_def rotate_right_def)

lemma rotation_two_by_one:
  assumes "c0 \<noteq> c1"
  shows "rotation_frames (Suc (Suc 0)) [(0, 0), (Suc 0, 0)] [c0, c1] (two_by_one c0 c1) =
           Inr [(two_by_one c1 c0, 250), (two_by_one c0 c1, 250)]"
proof -
  have r: "rotate_right [c0, c1] = [c1, c0]" "rotate_right [c1, c0] = [c0, c1]"
    by (simp_all add: rotate_right_def)
  have a: "replace_colors (color_translations [c0, c1] [c1, c0]) (two_by_one c0 c1)
     [(0, 0), (Suc 0, 0)] = Inr (two_by_one c1 c0)"
    using replace_two_by_one [OF assms] r by simp
  have b: "replace_colors (color_translations [c1, c0] [c0, c1]) (two_by_one c1 c0)
     [(0, 0), (Suc 0, 0)] = Inr (two_by_one c0 c1)"
    using replace_two_by_one [of c1 c0] assms r by simp
  show ?thesis by (simp add: Let_def r a b del: replace_colors.simps)
qed

text \<open>
  Claim C8. \<open>palette_cycle\<close> on a surface of 2 by 1 pixels with two distinct colors
  returns a sprite of exactly 2 frames of 250 ms each. Frame 0 is the surface with the
  two colors exchanged (the palette rotated by one step), which differs from the original;
  frame 1, the rotation applied twice, is the original surface again.
\<close>

theorem palette_cycle_two_colors:
  assumes "c0 \<noteq> c1"
  shows "\<exists>a. palette_cycle (two_by_one c0 c1) = Inr a \<and>
           length (frames a) = 2 \<and>
           map duration (frames a) = [250, 250] \<and>
           map surface (frames a) = [two_by_one c1 c0, two_by_one c0 c1] \<and>
           two_by_one c1 c0 \<noteq> two_by_one c0 c1"
proof -
  have g: "get_size (two_by_one c0 c1) = (2, 1)" by (simp add: get_size_def two_by_one_def)
  have ne: "two_by_one c1 c0 \<noteq> two_by_one c0 c1" using assms by (simp add: two_by_one_def)
  have "palette_cycle (two_by_one c0 c1) =
          from_surface_duration_list [(two_by_one c1 c0, 250), (two_by_one c0 c1, 250)]"
    by (simp add: palette_cycle_def Let_def g coordinates_two_by_one discover_two_by_one [OF assms]
        rotation_two_by_one [OF assms] del: discover_colors.simps rotation_frames.simps)
  then show ?thesis using ne
    by (simp add: from_surface_duration_list_def AnimatedSprite_init_def py_getitem_def
        AnimatedSpriteFrame_init_def)
qed

theorem palette_cycle_two_colors_witness:
  "red \<noteq> blue \<and>
   (\<exists>a. palette_cycle (two_by_one red blue) = Inr a \<and>
           length (frames a) = 2 \<and>
           map duration (frames a) = [250, 250] \<and>
           map surface (frames a) = [two_by_one blue red, two_by_one red blue] \<and>
           two_by_one blue red \<noteq> two_by_one red blue)"
proof -
  have h: "red \<noteq> blue" by (simp add: red_def blue_def)
  show ?thesis using palette_cycle_two_colors [OF h] h by simp
qed

section \<open>Properties of resource loading\<close>

lemma rfind_nonneg_iff: "0 \<le> rfind c xs \<longleftrightarrow> c \<in> set xs"
  by (induction xs) (auto simp: Let_def)

lemma rfind_bounds: "- 1 \<le> rfind c xs \<and> rfind c xs < int (length xs)"
  by (induction xs) (auto simp: Let_def)

lemma rfind_absent: "c \<notin> set xs \<Longrightarrow> rfind c xs = - 1"
  using rfind_nonneg_iff [of c xs] rfind_bounds [of c xs] by linarith

lemma rfind_append:
  "rfind c (xs @ ys) = (if c \<in> set ys then int (length xs) + rfind c ys else rfind c xs)"
  by (induction xs) (auto simp: Let_def rfind_nonneg_iff rfind_absent)

lemma splitext_append: "fst (splitext p) @ snd (splitext p) = p"
  by (simp add: splitext_def Let_def)

lemma splitext_sidecar:
  assumes "snd (splitext k) = ''.gif''"
  shows "splitext (fst (splitext k) @ ''.ini'') = (fst (splitext k), ''.ini'')"
proof -
  let ?sep = "rfind CHR ''/'' k" and ?dot = "rfind CHR ''.'' k"
  let ?root = "take (nat ?dot) k"
  have c: "?dot > ?sep"
      "list_ex (\<lambda>c. c \<noteq> CHR ''.'') (drop (nat (?sep + 1)) ?root)"
      "fst (splitext k) = ?root" "drop (nat ?dot) k = ''.gif''"
    using assms by (auto simp: splitext_def Let_def split: if_splits)
  have d0: "0 \<le> ?dot" using c(1) rfind_bounds [of "CHR ''/''" k] by linarith
  have dl: "?dot < int (length k)" using rfind_bounds [of "CHR ''.''" k] by simp
  have len: "int (length ?root) = ?dot" using d0 dl by simp
  have k: "k = ?root @ ''.gif''" using c(4) append_take_drop_id [of "nat ?dot" k] by simp
  have sep: "rfind CHR ''/'' (?root @ ''.ini'') = ?sep"
  proof -
    have "rfind CHR ''/'' (?root @ ''.ini'') = rfind CHR ''/'' ?root"
      by (simp add: rfind_append)
    also have "\<dots> = rfind CHR ''/'' (?root @ ''.gif'')" by (simp add: rfind_append)
    finally show ?thesis using k by simp
  qed
  have dot: "rfind CHR ''.'' (?root @ ''.ini'') = ?dot"
    using len by (simp add: rfind_append Let_def)
  have tk: "take (nat ?dot) (?root @ ''.ini'') = ?root" "drop (nat ?dot) (?root @ ''.ini'') = ''.ini''"
    using len d0 by auto
  show ?thesis
    unfolding c(3) using c(1,2) by (simp only: splitext_def Let_def sep dot tk) simp
qed

lemma sidecar_differs:
  "snd (splitext k) = ''.gif'' \<Longrightarrow> fst (splitext k) @ ''.ini'' \<noteq> k"
proof
  assume g: "snd (splitext k) = ''.gif''" and e: "fst (splitext k) @ ''.ini'' = k"
  have "k = fst (splitext k) @ ''.gif''"
    using splitext_append [of k] g by simp
  then have "fst (splitext k) @ ''.ini'' = fst (splitext k) @ ''.gif''" using e by simp
  then show False by simp
qed

lemma load_ini_config_own:
  "map_of f1 n = map_of f2 n \<Longrightarrow> load_ini_config X f1 n = load_ini_config X f2 n"
  by (simp add: load_ini_config_def dict_get_def)

lemma anchor_config_own:
  assumes "map_of f1 n = map_of f2 n"
  shows "anchor_config X f1 n = anchor_config X f2 n"
  unfolding anchor_config_def dict_get_def load_ini_config_own [OF assms] assms ..

lemma load_gif_own:
  assumes "map_of f1 k = map_of f2 k"
    and "anchor_config X f1 (fst (splitext k) @ ''.ini'') =
         anchor_config X f2 (fst (splitext k) @ ''.ini'')"
  shows "load_gif X f1 k = load_gif X f2 k"
  unfolding load_gif_def dict_get_def assms ..

lemma handler_own:
  assumes "map_of f1 k = map_of f2 k"
  shows "load_png X f1 k = load_png X f2 k" and "load_txt X f1 k = load_txt X f2 k"
    and "load_ini X f1 k = load_ini X f2 k"
  unfolding load_png_def load_txt_def load_ini_def load_ini_config_def dict_get_def assms
  by (rule refl)+

lemma decode_entry_own:
  assumes "snd (splitext k) \<noteq> ''.gif''" and "map_of f1 k = map_of f2 k"
  shows "decode_entry X f1 k = decode_entry X f2 k"
  using assms(1) handler_own [OF assms(2), of X]
  by (auto simp: decode_entry_def FROM_EXTENSION_def dict_get_def assms(2)
      split: option.splits)

lemma decode_entry_gif:
  assumes "snd (splitext k) = ''.gif''" and "map_of f1 k = map_of f2 k"
    and "anchor_config X f1 (fst (splitext k) @ ''.ini'') =
         anchor_config X f2 (fst (splitext k) @ ''.ini'')"
  shows "decode_entry X f1 k = decode_entry X f2 k"
  using load_gif_own [OF assms(2,3)]
  by (auto simp: decode_entry_def FROM_EXTENSION_def dict_get_def assms(1,2)
      split: option.splits)

lemma decode_entry_cong:
  assumes "map_of f1 = map_of f2"
  shows "decode_entry X f1 k = decode_entry X f2 k"
proof (cases "snd (splitext k) = ''.gif''")
  case True
  have a: "map_of f1 k = map_of f2 k" using assms by simp
  have b: "anchor_config X f1 (fst (splitext k) @ ''.ini'') =
           anchor_config X f2 (fst (splitext k) @ ''.ini'')"
    by (rule anchor_config_own) (simp add: assms)
  show ?thesis using decode_entry_gif [OF True a b] .
next
  case False
  then show ?thesis by (rule decode_entry_own) (simp add: assms)
qed

lemma decode_entry_ini:
  assumes "snd (splitext n) = ''.ini''" and "decode_entry X raw n = Inr v"
  shows "\<exists>c. v = Config c \<and> load_ini_config X raw n = Inr c"
  using assms
  by (auto simp: decode_entry_def FROM_EXTENSION_def load_ini_def split: sum.splits)

lemma raw_files_lookup:
  assumes "raw_files fls" and "map_of fls k = Some v"
  shows "\<exists>b. v = Raw b"
proof -
  have "(k, v) \<in> set fls" using assms(2) by (rule map_of_SomeD)
  then have "is_raw v" using assms(1) by (auto simp: raw_files_def list_all_iff)
  then show ?thesis by (cases v) (simp_all add: is_raw_def)
qed

lemma anchor_config_decoded:
  assumes r: "raw_files raw" and e: "snd (splitext n) = ''.ini''"
    and d: "decode_entry X raw n = Inr v" and c: "map_of cur n = Some v"
  shows "anchor_config X cur n = anchor_config X raw n"
proof -
  obtain cfg where v: "v = Config cfg" and l: "load_ini_config X raw n = Inr cfg"
    using decode_entry_ini [OF e d] by auto
  obtain w where w: "map_of raw n = Some w"
    using d by (auto simp: decode_entry_def dict_get_def split: option.splits)
  then obtain b where b: "w = Raw b" using raw_files_lookup [OF r] by blast
  have "anchor_config X cur n = Inr (Some cfg)"
    using c v by (simp add: anchor_config_def dict_get_def)
  moreover have "anchor_config X raw n = Inr (Some cfg)"
    using w b l by (simp add: anchor_config_def dict_get_def)
  ultimately show ?thesis by simp
qed

lemma decode_entry_pending:
  assumes r: "raw_files raw" and p: "pass_state X raw seen cur" and k: "k \<notin> seen"
  shows "decode_entry X cur k = decode_entry X raw k"
proof -
  have own: "map_of cur k = map_of raw k" using p k by (simp add: pass_state_def)
  show ?thesis
  proof (cases "snd (splitext k) = ''.gif''")
    case False
    then show ?thesis using own by (rule decode_entry_own)
  next
    case True
    let ?n = "fst (splitext k) @ ''.ini''"
    have e: "snd (splitext ?n) = ''.ini''" using splitext_sidecar [OF True] by simp
    have "anchor_config X cur ?n = anchor_config X raw ?n"
    proof (cases "?n \<in> seen")
      case False
      then have "map_of cur ?n = map_of raw ?n" using p by (simp add: pass_state_def)
      then show ?thesis by (rule anchor_config_own)
    next
      case True
      then obtain v where "decode_entry X raw ?n = Inr v" "map_of cur ?n = Some v"
        using p by (auto simp: pass_state_def)
      then show ?thesis using anchor_config_decoded [OF r e] by blast
    qed
    then show ?thesis using decode_entry_gif [OF True own] by simp
  qed
qed

lemma pass_state_step:
  assumes p: "pass_state X raw seen cur" and d: "decode_entry X raw k = Inr v"
  shows "pass_state X raw (insert k seen) (AList.update k v cur)"
  using p d by (auto simp: pass_state_def update_conv')

lemma decode_pass_state:
  "raw_files raw \<Longrightarrow> pass_state X raw seen cur \<Longrightarrow> distinct ks \<Longrightarrow> set ks \<inter> seen = {} \<Longrightarrow>
   decode_pass X ks cur = Inr fin \<Longrightarrow> pass_state X raw (seen \<union> set ks) fin"
proof (induction ks arbitrary: seen cur)
  case Nil
  then show ?case by simp
next
  case (Cons k ks)
  have k: "k \<notin> seen" using Cons.prems(4) by auto
  have eq: "decode_entry X cur k = decode_entry X raw k"
    using decode_entry_pending [OF Cons.prems(1,2) k] .
  obtain v where v: "decode_entry X raw k = Inr v"
      and rest: "decode_pass X ks (AList.update k v cur) = Inr fin"
    using Cons.prems(5) eq by (auto split: sum.splits)
  have p: "pass_state X raw (insert k seen) (AList.update k v cur)"
    using pass_state_step [OF Cons.prems(2) v] .
  have "pass_state X raw (insert k seen \<union> set ks) fin"
    using Cons.IH [OF Cons.prems(1) p _ _ rest] Cons.prems(3,4) by auto
  then show ?case by simp
qed

lemma decode_pass_fails_iff:
  "raw_files raw \<Longrightarrow> pass_state X raw seen cur \<Longrightarrow> distinct ks \<Longrightarrow> set ks \<inter> seen = {} \<Longrightarrow>
   (\<exists>e. decode_pass X ks cur = Inl e) \<longleftrightarrow> (\<exists>k\<in>set ks. \<exists>e. decode_entry X raw k = Inl e)"
proof (induction ks arbitrary: seen cur)
  case Nil
  then show ?case by simp
next
  case (Cons k ks)
  have k: "k \<notin> seen" using Cons.prems(4) by auto
  have eq: "decode_entry X cur k = decode_entry X raw k"
    using decode_entry_pending [OF Cons.prems(1,2) k] .
  show ?case
  proof (cases "decode_entry X raw k")
    case (Inl e)
    then show ?thesis using eq by auto
  next
    case (Inr v)
    have p: "pass_state X raw (insert k seen) (AList.update k v cur)"
      using pass_state_step [OF Cons.prems(2) Inr] .
    have "(\<exists>e. decode_pass X ks (AList.update k v cur) = Inl e) \<longleftrightarrow>
          (\<exists>k\<in>set ks. \<exists>e. decode_entry X raw k = Inl e)"
      using Cons.IH [OF Cons.prems(1) p] Cons.prems(3,4) by auto
    then show ?thesis using eq Inr by auto
  qed
qed

lemma pass_state_initial: "pass_state X raw {} raw"
  by (simp add: pass_state_def)

lemma decode_pass_order_independent:
  assumes r1: "raw_files raw1" and r2: "raw_files raw2"
    and d1: "distinct (map fst raw1)" and d2: "distinct (map fst raw2)"
    and m: "map_of raw1 = map_of raw2"
  shows "((\<exists>e. decode_pass X (map fst raw1) raw1 = Inl e) \<and>
          (\<exists>e. decode_pass X (map fst raw2) raw2 = Inl e)) \<or>
         (\<exists>f1 f2. decode_pass X (map fst raw1) raw1 = Inr f1 \<and>
                  decode_pass X (map fst raw2) raw2 = Inr f2 \<and> map_of f1 = map_of f2)"
proof -
  let ?P1 = "decode_pass X (map fst raw1) raw1" and ?P2 = "decode_pass X (map fst raw2) raw2"
  have keys: "set (map fst raw1) = set (map fst raw2)"
    using m dom_map_of_conv_image_fst [of raw1] dom_map_of_conv_image_fst [of raw2] by simp
  have ent: "\<And>k. decode_entry X raw1 k = decode_entry X raw2 k"
    using decode_entry_cong [OF m] .
  have f1: "(\<exists>e. ?P1 = Inl e) \<longleftrightarrow> (\<exists>k\<in>set (map fst raw1). \<exists>e. decode_entry X raw1 k = Inl e)"
    using decode_pass_fails_iff [OF r1 pass_state_initial d1] by simp
  have f2: "(\<exists>e. ?P2 = Inl e) \<longleftrightarrow> (\<exists>k\<in>set (map fst raw2). \<exists>e. decode_entry X raw2 k = Inl e)"
    using decode_pass_fails_iff [OF r2 pass_state_initial d2] by simp
  have same_fail: "(\<exists>e. ?P1 = Inl e) \<longleftrightarrow> (\<exists>e. ?P2 = Inl e)"
    unfolding f1 f2 keys ent ..
  show ?thesis
  proof (cases ?P1)
    case (Inl e)
    then show ?thesis using same_fail by auto
  next
    case (Inr g1)
    then obtain g2 where g2: "?P2 = Inr g2" using same_fail by (cases ?P2) auto
    have s1: "pass_state X raw1 (set (map fst raw1)) g1"
      using decode_pass_state [OF r1 pass_state_initial d1 _ Inr] by simp
    have s2: "pass_state X raw2 (set (map fst raw2)) g2"
      using decode_pass_state [OF r2 pass_state_initial d2 _ g2] by simp
    have "map_of g1 k = map_of g2 k" for k
    proof (cases "k \<in> set (map fst raw1)")
      case True
      then obtain v1 where v1: "decode_entry X raw1 k = Inr v1" "map_of g1 k = Some v1"
        using s1 unfolding pass_state_def by blast
      from True keys obtain v2 where v2: "decode_entry X raw2 k = Inr v2" "map_of g2 k = Some v2"
        using s2 unfolding pass_state_def by blast
      show ?thesis using v1 v2 ent [of k] by simp
    next
      case False
      then have "map_of g1 k = map_of raw1 k" using s1 unfolding pass_state_def by blast
      moreover from False keys have "map_of g2 k = map_of raw2 k"
        using s2 unfolding pass_state_def by blast
      ultimately show ?thesis using m by simp
    qed
    then have "map_of g1 = map_of g2" by (rule ext)
    then show ?thesis using Inr g2 by simp
  qed
qed

lemma raw_files_update:
  "raw_files fls \<Longrightarrow> raw_files (AList.update k (Raw b) fls)"
  by (induction fls) (auto simp: raw_files_def is_raw_def)

lemma read_directory_raw:
  assumes py2: "\<And>stored. open_read X stored = Inr (Raw stored)"
  shows "read_directory X d acc = Inr raw \<Longrightarrow> raw_files acc \<Longrightarrow> distinct (map fst acc) \<Longrightarrow>
         raw_files raw \<and> distinct (map fst raw)"
proof (induction d arbitrary: acc)
  case Nil
  then show ?case by simp
next
  case (Cons a d)
  obtain n e where a: "a = (n, e)" by (cases a)
  show ?case
  proof (cases e)
    case SubDirectory
    then show ?thesis using Cons.prems a by simp
  next
    case (File b)
    have "read_directory X d (AList.update n (Raw b) acc) = Inr raw"
      using Cons.prems(1) a File py2 by simp
    then show ?thesis
      using Cons.IH raw_files_update [OF Cons.prems(2)] distinct_update [OF Cons.prems(3)]
      by blast
  qed
qed

lemma read_zip_loop_raw:
  "read_zip_loop z ns acc = Inr raw \<Longrightarrow> raw_files acc \<Longrightarrow> distinct (map fst acc) \<Longrightarrow>
   raw_files raw \<and> distinct (map fst raw)"
proof (induction ns arbitrary: acc)
  case Nil
  then show ?case by simp
next
  case (Cons n ns)
  show ?case
  proof (cases "n = []")
    case True
    then show ?thesis using Cons by simp
  next
    case False
    then obtain b where b: "zip_open_read z n = Inr b"
        and r: "read_zip_loop z ns (AList.update n (Raw b) acc) = Inr raw"
      using Cons.prems(1) by (auto split: sum.splits)
    show ?thesis
      using Cons.IH [OF r] raw_files_update [OF Cons.prems(2)] distinct_update [OF Cons.prems(3)]
      by blast
  qed
qed

lemma raw_files_empty: "raw_files []"
  by (simp add: raw_files_def)

text \<open>
  Where the text-mode read returns the bytes of the file, as under Python 2, a directory
  and a zip archive that hold the same files (the raw dictionaries read from them map the
  same names to the same bytes, in whatever order) load to the same decoded dictionary:
  both loads fail, or both succeed and every name maps to the same decoded asset.
\<close>

lemma resource_same_when_read_returns_bytes:
  assumes "open_read X = python2_open_read"
    and "read_directory X d [] = Inr raw1" and "read_zip z = Inr raw2"
    and "map_of raw1 = map_of raw2"
  shows "((\<exists>e. Resource_init X (Directory d) = Inl e) \<and>
          (\<exists>e. Resource_init X (ZipArchive z) = Inl e)) \<or>
         (\<exists>f1 f2. Resource_init X (Directory d) = Inr f1 \<and>
                  Resource_init X (ZipArchive z) = Inr f2 \<and> map_of f1 = map_of f2)"
proof -
  have py2: "\<And>stored. open_read X stored = Inr (Raw stored)"
    using assms(1) by (simp add: python2_open_read_def)
  have r1: "raw_files raw1" "distinct (map fst raw1)"
    using read_directory_raw [OF py2 assms(2) raw_files_empty] by simp_all
  have r2: "raw_files raw2" "distinct (map fst raw2)"
    using read_zip_loop_raw [OF assms(3) [unfolded read_zip_def] raw_files_empty] by simp_all
  have "Resource_init X (Directory d) = decode_pass X (map fst raw1) raw1"
    "Resource_init X (ZipArchive z) = decode_pass X (map fst raw2) raw2"
    using assms(2,3) by (simp_all add: Resource_init_def read_container_def)
  then show ?thesis
    using decode_pass_order_independent [OF r1(1) r2(1) r1(2) r2(2) assms(4)] by simp
qed

text \<open>
  Claim C4 on an archive with a directory entry: the entry \<open>sub/\<close> is stored in the raw
  dictionary, with an empty payload, next to the file below it. Only the empty name is
  skipped by the zip branch.
\<close>

theorem zip_directory_entry_stored:
  "read_zip [(''sub/'', []), (''sub/a.txt'', ''hi'')] =
     Inr [(''sub/'', Raw []), (''sub/a.txt'', Raw ''hi'')]"
  by (simp add: read_zip_def zip_open_read_def dict_get_def)

lemma sample_directory_read:
  "read_directory sample_external sample_directory [] = Inr [(''a.png'', Text ''x'')]"
  by (simp add: sample_directory_def sample_external_def python3_open_read_def ascii_decode_def)

lemma sample_zip_read: "read_zip sample_zip = Inr [(''a.png'', Raw ''x'')]"
  by (simp add: sample_zip_def read_zip_def zip_open_read_def dict_get_def)

lemma splitext_samples:
  "splitext ''a.ini'' = (''a'', ''.ini'')" "splitext ''a.gif'' = (''a'', ''.gif'')"
  "splitext ''a.png'' = (''a'', ''.png'')"
  by (simp_all add: splitext_def Let_def)

text \<open>
  Claim C3 on a directory and a zip archive that both hold the one file \<open>a.png\<close> with the
  same byte, under Python 3. The directory branch reads the file in text mode and stores
  a \<open>str\<close>, on which \<open>BytesIO\<close> in \<open>load_png\<close> raises TypeError, so the load from the
  directory fails; the zip branch reads the bytes and the load succeeds.
\<close>

theorem directory_load_fails_where_zip_loads:
  "Resource_init sample_external (Directory sample_directory) = Inl TypeError \<and>
   Resource_init sample_external (ZipArchive sample_zip) = Inr [(''a.png'', ByteStream ''x'')]"
  by (simp add: Resource_init_def read_container_def sample_directory_read sample_zip_read
      decode_entry_def dict_get_def splitext_samples FROM_EXTENSION_def load_png_def)

lemma py_str_0: "py_str 0 = ''0''"
  by (simp add: py_str.simps digit_char_def)

lemma sample_from_file:
  "from_file sample_external sample_gif (Some sample_config) = Inr (anchored_sprite 1 2)"
  "from_file sample_external sample_gif (Some other_config) = Inr (anchored_sprite 2 1)"
  by (simp_all add: from_file_def frames_from_gif_def sample_external_def
      LabeledSurfaceAnchors_init_def sample_config_def other_config_def config_get_def py_str_0
      AnimatedSprite_init_def py_getitem_def anchored_sprite_def total_duration_frames_def
      AnimatedSpriteFrame_init_def get_size_def red_pixel_def)

lemma sample_ini_decoded: "decode_utf8 sample_external sample_ini = Inr sample_ini"
  by (simp add: sample_external_def ascii_decode_def sample_ini_def)

lemma sidecar_entry_decoded:
  "decode_entry sample_external sidecar_raw ''a.ini'' = Inr (Config sample_config)"
  apply (simp add: sidecar_raw_def decode_entry_def dict_get_def splitext_samples
      FROM_EXTENSION_def load_ini_def load_ini_config_def sample_ini_decoded)
  apply (simp add: sample_external_def)
  done

lemma sidecar_pass_step:
  "decode_pass sample_external [''a.ini''] sidecar_raw = Inr (sidecar_decoded sample_config)"
  by (simp add: sidecar_entry_decoded sidecar_decoded_def) (simp add: sidecar_raw_def)

lemma load_gif_sidecar_decoded:
  "load_gif sample_external (sidecar_decoded c) ''a.gif'' =
     sprite_result (from_file sample_external sample_gif (Some c))"
  by (simp add: load_gif_def sidecar_decoded_def dict_get_def splitext_samples
      anchor_config_def sprite_result_def)

text \<open>
  Claim C5 says that the gif decoder never consumes a pre-decoded configuration. When the
  pass reaches \<open>a.ini\<close> before \<open>a.gif\<close>, the dictionary handed to \<open>load_gif\<close> holds the
  configuration object under \<open>a.ini\<close> and no raw bytes of it; \<open>load_gif\<close> builds the
  sprite from that object, and from a different object when a different one is stored.
\<close>

theorem gif_decoder_consumes_decoded_sidecar:
  "decode_pass sample_external [''a.ini''] sidecar_raw = Inr (sidecar_decoded sample_config) \<and>
   load_gif sample_external (sidecar_decoded sample_config) ''a.gif'' =
     Inr (Sprite (anchored_sprite 1 2)) \<and>
   load_gif sample_external (sidecar_decoded other_config) ''a.gif'' =
     Inr (Sprite (anchored_sprite 2 1))"
  by (simp add: sidecar_pass_step load_gif_sidecar_decoded sample_from_file sprite_result_def
      del: decode_pass.simps)

lemma load_gif_cases:
  assumes g: "map_of cur k = Some (Raw gif)"
  shows "(map_of cur (fst (splitext k) @ ''.ini'') = None \<longrightarrow>
            load_gif X cur k = sprite_result (from_file X gif None)) \<and>
         (\<forall>c. map_of cur (fst (splitext k) @ ''.ini'') = Some (Config c) \<longrightarrow>
            load_gif X cur k = sprite_result (from_file X gif (Some c))) \<and>
         (\<forall>b c. map_of cur (fst (splitext k) @ ''.ini'') = Some (Raw b) \<and>
                load_ini_config X cur (fst (splitext k) @ ''.ini'') = Inr c \<longrightarrow>
            load_gif X cur k = sprite_result (from_file X gif (Some c)))"
  using g by (auto simp: load_gif_def dict_get_def anchor_config_def sprite_result_def)

text \<open>
  Claim C5, amended. At any point of a decode pass over a dictionary of raw payloads, a
  key not yet visited decodes to what it decodes to on the raw dictionary, whatever was
  visited before it. For a gif, the sidecar entry is read in the state the pass left it
  in: absent means no anchors, a configuration object decoded earlier is used as it is,
  and raw bytes are decoded on demand by \<open>load_ini\<close>.
\<close>

theorem gif_sidecar_resolution:
  assumes "raw_files raw" and "distinct ks" and "k \<notin> set ks"
    and "decode_pass X ks raw = Inr cur"
  shows "decode_entry X cur k = decode_entry X raw k \<and>
         (\<forall>gif. map_of cur k = Some (Raw gif) \<longrightarrow>
            (map_of cur (fst (splitext k) @ ''.ini'') = None \<longrightarrow>
               load_gif X cur k = sprite_result (from_file X gif None)) \<and>
            (\<forall>c. map_of cur (fst (splitext k) @ ''.ini'') = Some (Config c) \<longrightarrow>
               load_gif X cur k = sprite_result (from_file X gif (Some c))) \<and>
            (\<forall>b c. map_of cur (fst (splitext k) @ ''.ini'') = Some (Raw b) \<and>
                   load_ini_config X cur (fst (splitext k) @ ''.ini'') = Inr c \<longrightarrow>
               load_gif X cur k = sprite_result (from_file X gif (Some c))))"
proof -
  have p: "pass_state X raw (set ks) cur"
    using decode_pass_state [OF assms(1) pass_state_initial assms(2) _ assms(4)] by simp
  have "decode_entry X cur k = decode_entry X raw k"
    using decode_entry_pending [OF assms(1) p assms(3)] .
  then show ?thesis using load_gif_cases [of cur k _ X] by blast
qed

lemma sidecar_raw_files: "raw_files sidecar_raw"
  by (simp add: raw_files_def sidecar_raw_def is_raw_def)

theorem gif_sidecar_resolution_witness:
  "raw_files sidecar_raw \<and> distinct [''a.ini''] \<and> ''a.gif'' \<notin> set [''a.ini''] \<and>
   decode_pass sample_external [''a.ini''] sidecar_raw = Inr (sidecar_decoded sample_config) \<and>
   decode_entry sample_external (sidecar_decoded sample_config) ''a.gif'' =
     decode_entry sample_external sidecar_raw ''a.gif'' \<and>
   map_of (sidecar_decoded sample_config) ''a.gif'' = Some (Raw sample_gif) \<and>
   map_of (sidecar_decoded sample_config) (fst (splitext ''a.gif'') @ ''.ini'') =
     Some (Config sample_config) \<and>
   load_gif sample_external (sidecar_decoded sample_config) ''a.gif'' =
     sprite_result (from_file sample_external sample_gif (Some sample_config))"
proof -
  have d: "distinct [''a.ini'']" and n: "''a.gif'' \<notin> set [''a.ini'']" by simp_all
  have m: "map_of (sidecar_decoded sample_config) ''a.gif'' = Some (Raw sample_gif)"
    "map_of (sidecar_decoded sample_config) (fst (splitext ''a.gif'') @ ''.ini'') =
       Some (Config sample_config)"
    by (simp_all add: sidecar_decoded_def splitext_samples)
  show ?thesis
    using gif_sidecar_resolution [OF sidecar_raw_files d n sidecar_pass_step]
      sidecar_raw_files sidecar_pass_step m
    by (simp del: decode_pass.simps)
qed

section \<open>Properties of walkabout construction\<close>

lemma split_once_token:
  assumes "CHR ''_'' \<notin> set a"
  shows "split_once CHR ''_'' (a @ CHR ''_'' # d) = [a, d]"
proof -
  have n: "\<And>x. x \<in> set a \<Longrightarrow> x \<noteq> CHR ''_''" using assms by auto
  show ?thesis by (simp add: split_once_def takeWhile_append2 [OF n] dropWhile_append2 [OF n])
qed

lemma split_once_none: "CHR ''_'' \<notin> set n \<Longrightarrow> split_once CHR ''_'' n = [n]"
  by (simp add: split_once_def)

lemma parse_name_only: "parse_name C ''only'' = Inr (Action_stand C, Direction_south C)"
  by (simp add: parse_name_def)

lemma parse_name_tokens:
  assumes "CHR ''_'' \<notin> set a"
  shows "parse_name C (a @ ''_'' @ d) =
           (case getattr_Direction C d of
              None \<Rightarrow> Inl AttributeError
            | Some dir \<Rightarrow>
                (case getattr_Action C a of
                   None \<Rightarrow> Inl AttributeError
                 | Some act \<Rightarrow> Inr (act, dir)))"
proof -
  have "a @ ''_'' @ d \<noteq> ''only''"
  proof
    assume "a @ ''_'' @ d = ''only''"
    then have "CHR ''_'' \<in> set ''only''" by (metis in_set_conv_decomp append_Cons)
    then show False by simp
  qed
  then show ?thesis by (simp add: parse_name_def split_once_token [OF assms])
qed

lemma parse_name_no_underscore:
  "n \<noteq> ''only'' \<Longrightarrow> CHR ''_'' \<notin> set n \<Longrightarrow> parse_name C n = Inl ValueError"
  by (simp add: parse_name_def split_once_none)

lemma parse_name_errors:
  "parse_name C n = Inl e \<Longrightarrow> e = ValueError \<or> e = AttributeError"
  by (auto simp: parse_name_def split_once_def split: if_splits option.splits)

lemma walkabout_loop_error:
  "list_ex (\<lambda>k. isl (parse_name C (bare_name k))) ks \<Longrightarrow>
   \<forall>k\<in>set ks. \<exists>v. dict_get sf k = Inr v \<Longrightarrow>
   walkabout_loop C sf ks st = Inl ValueError \<or> walkabout_loop C sf ks st = Inl AttributeError"
proof (induction ks arbitrary: st)
  case Nil
  then show ?case by simp
next
  case (Cons k ks)
  obtain anims acts dirs la where st: "st = (anims, acts, dirs, la)" by (cases st)
  obtain v where v: "dict_get sf k = Inr v" using Cons.prems(2) by auto
  show ?case
  proof (cases "parse_name C (bare_name k)")
    case (Inl e)
    then show ?thesis using parse_name_errors [OF Inl] st by auto
  next
    case (Inr ad)
    then have "list_ex (\<lambda>k. isl (parse_name C (bare_name k))) ks" using Cons.prems(1) by simp
    then show ?thesis using Cons.IH Cons.prems(2) Inr v st by (cases ad) auto
  qed
qed

lemma dict_get_own_keys: "\<forall>k\<in>set (map fst sf). \<exists>v. dict_get sf k = Inr v"
proof
  fix k assume "k \<in> set (map fst sf)"
  then obtain v where "map_of sf k = Some v"
    by (metis map_of_eq_None_iff not_Some_eq set_map)
  then show "\<exists>v. dict_get sf k = Inr v" by (simp add: dict_get_def)
qed

lemma dict_get_error: "dict_get d k = Inl e \<Longrightarrow> e = KeyError"
  by (auto simp: dict_get_def split: option.splits)

lemma walkabout_loop_errors:
  "walkabout_loop C sf ks st = Inl e \<Longrightarrow> e = ValueError \<or> e = AttributeError \<or> e = KeyError"
proof (induction ks arbitrary: st)
  case Nil
  then show ?case by simp
next
  case (Cons k ks)
  obtain anims acts dirs la where st: "st = (anims, acts, dirs, la)" by (cases st)
  show ?case
  proof (cases "parse_name C (bare_name k)")
    case (Inl e')
    then show ?thesis using Cons.prems st parse_name_errors [OF Inl] by auto
  next
    case (Inr ad)
    obtain a d where ad: "ad = (a, d)" by (cases ad)
    show ?thesis
    proof (cases "dict_get sf k")
      case (Inl e')
      then have "e' = KeyError" by (rule dict_get_error)
      then show ?thesis using Cons.prems st Inr ad Inl by simp
    next
      case r: (Inr v)
      then show ?thesis using Cons.prems st Inr ad Cons.IH by simp
    qed
  qed
qed

lemma walkabout_bad_only_without_gif:
  assumes "Walkabout_from_resource C directory resource position children = Inl (BadWalkabout b)"
  shows "get_type resource ''.gif'' = None"
proof (rule ccontr)
  assume "get_type resource ''.gif'' \<noteq> None"
  then obtain sf where sf: "get_type resource ''.gif'' = Some sf" by auto
  show False
  proof (cases "walkabout_loop C sf (map fst sf) ([], [], [], None)")
    case (Inl e)
    then show ?thesis
      using assms sf walkabout_loop_errors [OF Inl] by (auto simp: Walkabout_from_resource_def)
  next
    case (Inr st)
    then show ?thesis
      using assms sf
      by (auto simp: Walkabout_from_resource_def Let_def asset_largest_frame_size_def
          dest: dict_get_error split: prod.splits option.splits sum.splits asset.splits)
  qed
qed

lemma walkabout_no_gif:
  "get_type resource ''.gif'' = None \<Longrightarrow>
   Walkabout_from_resource C directory resource position children = Inl (BadWalkabout directory)"
  by (simp add: Walkabout_from_resource_def)

lemma walkabout_bad_name:
  assumes "get_type resource ''.gif'' = Some sprite_files"
    and "list_ex (\<lambda>k. isl (parse_name C (bare_name k))) (map fst sprite_files)"
  shows "Walkabout_from_resource C directory resource position children = Inl ValueError \<or>
         Walkabout_from_resource C directory resource position children = Inl AttributeError"
  using walkabout_loop_error [OF assms(2) dict_get_own_keys, of "([], [], [], None)"] assms(1)
  by (auto simp: Walkabout_from_resource_def)

text \<open>
  Claim C6, amended. The bare name \<open>only\<close> stands for (stand, south). A name
  \<open>action_direction\<close>, split at its first underscore, has its direction and then its action
  looked up in the enumerations, and a token that is no member raises AttributeError. A
  name other than \<open>only\<close> without an underscore raises ValueError. Construction fails
  with BadWalkabout exactly in the case that the resource has no \<open>.gif\<close> asset; when some
  \<open>.gif\<close> name does not parse, it fails with ValueError or AttributeError.
\<close>

theorem walkabout_name_parsing:
  "parse_name C ''only'' = Inr (Action_stand C, Direction_south C) \<and>
   (CHR ''_'' \<notin> set a \<longrightarrow>
      parse_name C (a @ ''_'' @ d) =
        (case getattr_Direction C d of
           None \<Rightarrow> Inl AttributeError
         | Some dir \<Rightarrow>
             (case getattr_Action C a of
                None \<Rightarrow> Inl AttributeError
              | Some act \<Rightarrow> Inr (act, dir)))) \<and>
   (n \<noteq> ''only'' \<and> CHR ''_'' \<notin> set n \<longrightarrow> parse_name C n = Inl ValueError) \<and>
   (get_type resource ''.gif'' = None \<longrightarrow>
      Walkabout_from_resource C directory resource position children =
        Inl (BadWalkabout directory)) \<and>
   (Walkabout_from_resource C directory resource position children = Inl (BadWalkabout b) \<longrightarrow>
      get_type resource ''.gif'' = None) \<and>
   (get_type resource' ''.gif'' = Some sprite_files \<and>
    list_ex (\<lambda>k. isl (parse_name C (bare_name k))) (map fst sprite_files) \<longrightarrow>
      Walkabout_from_resource C directory resource' position children = Inl ValueError \<or>
      Walkabout_from_resource C directory resource' position children = Inl AttributeError)"
  using parse_name_only [of C] parse_name_tokens [of a C d] parse_name_no_underscore [of n C]
    walkabout_no_gif [of resource C directory position children]
    walkabout_bad_only_without_gif [of C directory resource position children b]
    walkabout_bad_name [of resource' sprite_files C directory position children]
  by simp

lemma splitext_walk_up: "splitext ''walk_up.gif'' = (''walk_up'', ''.gif'')"
  by (simp add: splitext_def Let_def)

lemma bare_name_walk_up: "bare_name ''walk_up.gif'' = ''walk_up''"
  by (simp add: bare_name_def splitext_walk_up path_tail_def)

lemma get_type_samples:
  "get_type no_gifs ''.gif'' = None" "get_type bad_direction ''.gif'' = Some bad_direction"
  by (simp_all add: get_type_def no_gifs_def bad_direction_def splitext_def Let_def)

lemma parse_walk_up: "parse_name sample_constants ''walk_up'' = Inl AttributeError"
  by (simp add: parse_name_def split_once_def sample_constants_def)

text \<open>
  Claim C6 says that an unrecognized direction token fails construction with
  BadWalkabout. With the single asset \<open>walk_up.gif\<close>, whose direction token \<open>up\<close> is
  no member of the enumeration, construction fails with AttributeError, the error of
  \<open>getattr\<close>.
\<close>

theorem unknown_direction_raises_attribute_error:
  "Walkabout_from_resource sample_constants ''hero'' bad_direction None ([] :: unit list) =
     Inl AttributeError"
  by (simp add: Walkabout_from_resource_def get_type_samples)
    (simp add: bad_direction_def bare_name_walk_up parse_walk_up)

theorem walkabout_name_parsing_witness:
  "parse_name sample_constants ''only'' = Inr (stand, south) \<and>
   CHR ''_'' \<notin> set ''walk'' \<and>
   parse_name sample_constants (''walk'' @ ''_'' @ ''north'') = Inr (walk, north) \<and>
   ''idle'' \<noteq> ''only'' \<and> CHR ''_'' \<notin> set ''idle'' \<and>
   parse_name sample_constants ''idle'' = Inl ValueError \<and>
   get_type no_gifs ''.gif'' = None \<and>
   Walkabout_from_resource sample_constants ''hero'' no_gifs None ([] :: unit list) =
     Inl (BadWalkabout ''hero'') \<and>
   get_type bad_direction ''.gif'' = Some bad_direction \<and>
   list_ex (\<lambda>k. isl (parse_name sample_constants (bare_name k))) (map fst bad_direction) \<and>
   (Walkabout_from_resource sample_constants ''hero'' bad_direction None ([] :: unit list) =
      Inl ValueError \<or>
    Walkabout_from_resource sample_constants ''hero'' bad_direction None ([] :: unit list) =
      Inl AttributeError)"
proof -
  have l: "list_ex (\<lambda>k. isl (parse_name sample_constants (bare_name k))) (map fst bad_direction)"
    by (simp add: bad_direction_def bare_name_walk_up parse_walk_up)
  have c: "Action_stand sample_constants = stand" "Direction_south sample_constants = south"
    "getattr_Direction sample_constants ''north'' = Some north"
    "getattr_Action sample_constants ''walk'' = Some walk"
    by (simp_all add: sample_constants_def)
  have u: "CHR ''_'' \<notin> set ''walk''" "''idle'' \<noteq> ''only''" "CHR ''_'' \<notin> set ''idle''"
    by simp_all
  from walkabout_name_parsing [of sample_constants "''walk''" "''north''" "''idle''" no_gifs
      "''hero''" None "[] :: unit list" "''hero''" bad_direction bad_direction]
  show ?thesis using l c u get_type_samples by simp
qed

lemma get_type_two_gifs: "get_type two_gifs ''.gif'' = Some two_gifs"
  by (simp add: get_type_def two_gifs_def splitext_def Let_def)

lemma bare_names_two_gifs:
  "bare_name ''stand_south.gif'' = ''stand_south''" "bare_name ''walk_north.gif'' = ''walk_north''"
  by (simp_all add: bare_name_def splitext_def Let_def path_tail_def)

lemma parse_two_gifs:
  "parse_name sample_constants ''stand_south'' = Inr (stand, south)"
  "parse_name sample_constants ''walk_north'' = Inr (walk, north)"
  by (simp_all add: parse_name_def split_once_def sample_constants_def)

text \<open>
  Claim C7 on a resource of two animations: \<open>stand_south.gif\<close> with a frame of 2 by 2
  pixels, iterated first, and \<open>walk_north.gif\<close> with frames of 1 by 1. The walkabout
  records the size (1, 1) of the animation iterated last, while the largest frame over
  all loaded animations is (2, 2).
\<close>

theorem walkabout_size_is_last_animation:
  "(case Walkabout_from_resource sample_constants ''hero'' two_gifs None ([] :: unit list) of
      Inl e \<Rightarrow> None
    | Inr w \<Rightarrow> Some (wk_size w)) = Some (1, 1) \<and>
   largest_frame_size_of_all [big_sprite, sample_sprite] = (2, 2)"
proof -
  have a: "walkabout_loop sample_constants two_gifs (map fst two_gifs) ([], [], [], None) =
      Inr ([(stand, [(south, Sprite big_sprite)]), (walk, [(north, Sprite sample_sprite)])],
           [stand, walk], [south, north], Some (Sprite sample_sprite))"
    by (simp add: two_gifs_def bare_names_two_gifs parse_two_gifs dict_get_def set_animation_def)
  have b: "asset_largest_frame_size (Sprite sample_sprite) = Inr (1, 1)"
    by (simp add: asset_largest_frame_size_def largest_frame_size_def sample_sprite_def
        AnimatedSpriteFrame_init_def get_size_def red_pixel_def blue_pixel_def)
  have c: "largest_frame_size_of_all [big_sprite, sample_sprite] = (2, 2)"
    by (simp add: largest_frame_size_of_all_def big_sprite_def sample_sprite_def
        AnimatedSpriteFrame_init_def get_size_def red_pixel_def blue_pixel_def big_surface_def)
  have d: "Action_stand sample_constants = stand" "Direction_south sample_constants = south"
    by (simp_all add: sample_constants_def)
  show ?thesis
    by (simp add: Walkabout_from_resource_def Let_def get_type_two_gifs a b c d dict_get_def
        del: walkabout_loop.simps)
qed

end
